theory Spec2Isabelle
  imports Complex_Main "HOL-Library.Monad_Syntax"
begin

section \<open>Ledger store\<close>

text \<open>
  The tables of the PostgreSQL schema (\<^verbatim>\<open>createTables\<close>) that the transaction, exchange,
  budget and dashboard handlers of the server read and write. A table is the list of its rows
  in insertion order. Money columns are \<^verbatim>\<open>DECIMAL(15, 2)\<close>: a value is the integer number of
  hundredths, and a stored value must have at most 15 digits. A request amount is any decimal
  number; the store rounds it to the scale of the column it is written to, half away from zero
  (\<open>pg_round\<close>), the row and the new balance each on their own. Ids are the integer keys of
  the \<^verbatim>\<open>SERIAL\<close> columns; a nullable reference is an option. Columns that no handler below reads
  (\<^verbatim>\<open>created_at\<close>, \<^verbatim>\<open>is_recurring\<close>, the descriptive columns of investments, assets and
  liabilities) are left out.
\<close>

definition fits_decimal_15_2 :: "int \<Rightarrow> bool" where
  "fits_decimal_15_2 v \<longleftrightarrow> \<bar>v\<bar> < 10 ^ 15"

text \<open>The number a stored count of hundredths stands for, the rounding of a number to \<open>s\<close>
  decimals as a count of units of \<open>10 ^ - s\<close>, and the numbers that have at most two
  decimals.\<close>

definition decimal :: "int \<Rightarrow> rat" where
  "decimal v = of_int v / 100"

definition pg_round :: "nat \<Rightarrow> rat \<Rightarrow> int" where
  "pg_round s x = (if x < 0 then - \<lfloor>- x * 10 ^ s + 1 / 2\<rfloor> else \<lfloor>x * 10 ^ s + 1 / 2\<rfloor>)"

definition two_decimals :: "rat \<Rightarrow> bool" where
  "two_decimals x \<longleftrightarrow> of_int \<lfloor>x * 100\<rfloor> = x * 100"

text \<open>A \<^verbatim>\<open>DATE\<close>: year, month, day.\<close>

type_synonym date = "int \<times> int \<times> int"

record account =
  acc_id :: nat
  acc_user_id :: nat
  acc_name :: string
  acc_type :: string
  acc_currency :: string
  acc_balance :: int
  acc_is_emergency_fund :: bool

record transaction =
  tx_id :: nat
  tx_user_id :: nat
  tx_account_id :: "nat option"
  tx_category_id :: "nat option"
  tx_income_source_id :: "nat option"
  tx_type :: string
  tx_amount :: int
  tx_description :: string
  tx_date :: date

record exchange_operation =
  ex_id :: nat
  ex_user_id :: nat
  from_account_id :: "nat option"
  to_account_id :: "nat option"
  from_amount :: int
  to_amount :: int
  from_currency :: string
  to_currency :: string
  exchange_rate :: int
  ex_date :: date

record budget =
  bud_id :: nat
  bud_user_id :: nat
  bud_category_id :: "nat option"
  bud_month :: int
  bud_year :: int
  bud_limit_amount :: int
  bud_currency :: string

text \<open>A row of \<^verbatim>\<open>investments\<close> (\<^verbatim>\<open>current_value\<close>), \<^verbatim>\<open>assets\<close> (\<^verbatim>\<open>value\<close>) or
  \<^verbatim>\<open>liabilities\<close> (\<^verbatim>\<open>amount\<close>): its owner, its currency and its valued column.\<close>

record valued_row =
  val_user_id :: nat
  val_currency :: string
  val_amount :: int

record db =
  users :: "nat list"
  accounts :: "account list"
  categories :: "nat list"
  income_sources :: "nat list"
  transactions :: "transaction list"
  transactions_id_seq :: nat
  exchange_operations :: "exchange_operation list"
  exchange_operations_id_seq :: nat
  budgets :: "budget list"
  budgets_id_seq :: nat
  investments :: "valued_row list"
  assets :: "valued_row list"
  liabilities :: "valued_row list"

subsection \<open>Requests and responses\<close>

text \<open>The JSON bodies after destructuring. A missing or null id is \<open>None\<close>; an amount or a
  rate is the number sent.\<close>

record tx_body =
  tb_accountId :: "nat option"
  tb_categoryId :: "nat option"
  tb_incomeSourceId :: "nat option"
  tb_type :: string
  tb_amount :: rat
  tb_description :: string
  tb_date :: date

record ex_body =
  eb_fromAccountId :: "nat option"
  eb_toAccountId :: "nat option"
  eb_fromAmount :: rat
  eb_toAmount :: rat
  eb_fromCurrency :: string
  eb_toCurrency :: string
  eb_exchangeRate :: rat
  eb_date :: date

text \<open>\<open>Ok\<close> is \<^verbatim>\<open>res.json(body)\<close>, \<open>Created\<close> is \<^verbatim>\<open>res.status(201).json(body)\<close>,
  \<open>Failure s\<close> is \<^verbatim>\<open>res.status(s).json({ error: ... })\<close>.\<close>

datatype 'a response = Ok 'a | Created 'a | Failure nat

datatype message = Deleted

subsection \<open>Queries\<close>

text \<open>
  Every \<^verbatim>\<open>client.query\<close> of a handler has a position, counted from 0 (\<^verbatim>\<open>BEGIN\<close>).
  \<open>fails k\<close> says that the store fails at position \<open>k\<close> for a reason of its own (a lost
  connection, a timeout); a query also throws when a constraint of the schema refuses it. A
  query that throws is \<open>None\<close>.
\<close>

definition query :: "(nat \<Rightarrow> bool) \<Rightarrow> nat \<Rightarrow> 'a option \<Rightarrow> 'a option" where
  "query fails k r = (if fails k then None else r)"

definition no_faults :: "nat \<Rightarrow> bool" where
  "no_faults k = False"

text \<open>
  The \<^verbatim>\<open>:id\<close> of a route is the text of the URL. A statement compares it with an
  \<^verbatim>\<open>INTEGER\<close> column, so the store reads it as an integer: blanks around an optional sign
  and decimal digits, of a value the column type holds. The statement throws on any other
  text. (The hexadecimal, octal and binary notations that newer servers read are not
  modelled.)
\<close>

definition is_space :: "char \<Rightarrow> bool" where
  "is_space c \<longleftrightarrow> of_char c \<in> set [32, 9, 10, 11, 12, 13 :: int]"

definition is_digit :: "char \<Rightarrow> bool" where
  "is_digit c \<longleftrightarrow> (48 :: int) \<le> of_char c \<and> of_char c \<le> (57 :: int)"

definition digits_value :: "string \<Rightarrow> int" where
  "digits_value s = foldl (\<lambda>acc c. 10 * acc + (of_char c - 48)) 0 s"

definition int4_in :: "string \<Rightarrow> int option" where
  "int4_in s =
     (let t = rev (dropWhile is_space (rev (dropWhile is_space s)));
          negative = (case t of [] \<Rightarrow> False | c # _ \<Rightarrow> c = CHR ''-'');
          ds = (case t of [] \<Rightarrow> [] | c # r \<Rightarrow> if c = CHR ''-'' \<or> c = CHR ''+'' then r else t);
          v = (if negative then - digits_value ds else digits_value ds)
      in if ds \<noteq> [] \<and> list_all is_digit ds \<and> - (2 ^ 31) \<le> v \<and> v < 2 ^ 31
         then Some v else None)"

text \<open>\<^verbatim>\<open>x || null\<close> on an id: 0 is falsy.\<close>

definition or_null :: "nat option \<Rightarrow> nat option" where
  "or_null x = (case x of None \<Rightarrow> None | Some n \<Rightarrow> if n = 0 then None else Some n)"

text \<open>\<^verbatim>\<open>rows[0]\<close>, which is undefined on an empty result.\<close>

definition first_row :: "'a list \<Rightarrow> 'a option" where
  "first_row rows = (case rows of [] \<Rightarrow> None | r # _ \<Rightarrow> Some r)"

definition references :: "nat option \<Rightarrow> nat list \<Rightarrow> bool" where
  "references fk keys = (case fk of None \<Rightarrow> True | Some k \<Rightarrow> k \<in> set keys)"

text \<open>\<^verbatim>\<open>UPDATE accounts SET balance = balance + $1 WHERE id = $2 AND user_id = $3\<close>.
  The sum is exact and is rounded when it is stored; the statement throws when a new balance
  does not fit the column.\<close>

definition add_decimal :: "int \<Rightarrow> rat \<Rightarrow> int" where
  "add_decimal balance change = pg_round 2 (decimal balance + change)"

definition account_matches :: "nat option \<Rightarrow> nat \<Rightarrow> account \<Rightarrow> bool" where
  "account_matches accountId userId a \<longleftrightarrow> accountId = Some (acc_id a) \<and> acc_user_id a = userId"

definition update_balance :: "rat \<Rightarrow> nat option \<Rightarrow> nat \<Rightarrow> db \<Rightarrow> db option" where
  "update_balance change accountId userId d =
     (if list_all (\<lambda>a. account_matches accountId userId a \<longrightarrow>
                        fits_decimal_15_2 (add_decimal (acc_balance a) change))
           (accounts d)
      then Some (d\<lparr>accounts :=
             map (\<lambda>a. if account_matches accountId userId a
                       then a\<lparr>acc_balance := add_decimal (acc_balance a) change\<rparr> else a)
               (accounts d)\<rparr>)
      else None)"

text \<open>The column constraints of \<^verbatim>\<open>transactions\<close> on the values a handler writes: the three
  foreign keys (the account of any owner), \<^verbatim>\<open>VARCHAR(50)\<close> and \<^verbatim>\<open>DECIMAL(15, 2)\<close> on
  the rounded amount.\<close>

definition transaction_columns_ok ::
  "db \<Rightarrow> nat option \<Rightarrow> nat option \<Rightarrow> nat option \<Rightarrow> string \<Rightarrow> rat \<Rightarrow> bool" where
  "transaction_columns_ok d accountId categoryId incomeSourceId type amount \<longleftrightarrow>
     references accountId (map acc_id (accounts d)) \<and>
     references categoryId (categories d) \<and>
     references incomeSourceId (income_sources d) \<and>
     length type \<le> 50 \<and> fits_decimal_15_2 (pg_round 2 amount)"

text \<open>\<^verbatim>\<open>SELECT * FROM transactions WHERE id = $1 AND user_id = $2\<close>\<close>

definition select_transaction :: "string \<Rightarrow> nat \<Rightarrow> db \<Rightarrow> transaction list option" where
  "select_transaction id' userId d =
     (case int4_in id' of
        None \<Rightarrow> None
      | Some n \<Rightarrow>
          Some (filter (\<lambda>t. int (tx_id t) = n \<and> tx_user_id t = userId) (transactions d)))"

text \<open>\<^verbatim>\<open>INSERT INTO transactions (...) VALUES (...) RETURNING *\<close>\<close>

definition insert_transaction ::
  "nat \<Rightarrow> nat option \<Rightarrow> nat option \<Rightarrow> nat option \<Rightarrow> string \<Rightarrow> rat \<Rightarrow> string \<Rightarrow> date \<Rightarrow> db
     \<Rightarrow> (transaction \<times> db) option" where
  "insert_transaction userId accountId categoryId incomeSourceId type amount description date d =
     (if userId \<in> set (users d) \<and>
         transaction_columns_ok d accountId categoryId incomeSourceId type amount
      then let row = \<lparr>tx_id = transactions_id_seq d, tx_user_id = userId,
                      tx_account_id = accountId, tx_category_id = categoryId,
                      tx_income_source_id = incomeSourceId, tx_type = type,
                      tx_amount = pg_round 2 amount,
                      tx_description = description, tx_date = date\<rparr>
           in Some (row, d\<lparr>transactions := transactions d @ [row],
                           transactions_id_seq := Suc (transactions_id_seq d)\<rparr>)
      else None)"

text \<open>\<^verbatim>\<open>UPDATE transactions SET account_id = $1, ..., date = $7 WHERE id = $8 AND user_id = $9
  RETURNING *\<close>. The constraints are checked when a row is written.\<close>

definition update_transaction ::
  "nat option \<Rightarrow> nat option \<Rightarrow> nat option \<Rightarrow> string \<Rightarrow> rat \<Rightarrow> string \<Rightarrow> date \<Rightarrow> string \<Rightarrow> nat
     \<Rightarrow> db \<Rightarrow> (transaction list \<times> db) option" where
  "update_transaction accountId categoryId incomeSourceId type amount description date id' userId d =
     (case int4_in id' of
        None \<Rightarrow> None
      | Some n \<Rightarrow>
          let hit = (\<lambda>t. int (tx_id t) = n \<and> tx_user_id t = userId);
              set_columns = (\<lambda>t. t\<lparr>tx_account_id := accountId, tx_category_id := categoryId,
                                    tx_income_source_id := incomeSourceId, tx_type := type,
                                    tx_amount := pg_round 2 amount, tx_description := description,
                                    tx_date := date\<rparr>)
          in if list_ex hit (transactions d) \<and>
                \<not> transaction_columns_ok d accountId categoryId incomeSourceId type amount
             then None
             else Some (map set_columns (filter hit (transactions d)),
                        d\<lparr>transactions :=
                            map (\<lambda>t. if hit t then set_columns t else t) (transactions d)\<rparr>))"

text \<open>\<^verbatim>\<open>DELETE FROM transactions WHERE id = $1 AND user_id = $2\<close>\<close>

definition delete_transaction_row :: "string \<Rightarrow> nat \<Rightarrow> db \<Rightarrow> db option" where
  "delete_transaction_row id' userId d =
     (case int4_in id' of
        None \<Rightarrow> None
      | Some n \<Rightarrow>
          Some (d\<lparr>transactions :=
                   filter (\<lambda>t. \<not> (int (tx_id t) = n \<and> tx_user_id t = userId)) (transactions d)\<rparr>))"

subsection \<open>Transaction handlers\<close>

text \<open>
  Each handler is \<^verbatim>\<open>try { BEGIN; ...; COMMIT; res.json(...) } catch { ROLLBACK; res.status(500) }\<close>.
  The body runs on the state the transaction sees; \<^verbatim>\<open>COMMIT\<close> makes that state the stored
  one, and \<^verbatim>\<open>ROLLBACK\<close> leaves the stored state as it was at \<^verbatim>\<open>BEGIN\<close>. The value a
  sequence consumes in a rolled-back \<^verbatim>\<open>INSERT\<close> is not modelled: ids only have to be fresh.
\<close>

definition settle :: "db \<Rightarrow> ('a response \<times> db) option \<Rightarrow> 'a response \<times> db" where
  "settle d r = (case r of None \<Rightarrow> (Failure 500, d) | Some out \<Rightarrow> out)"

text \<open>\<^verbatim>\<open>app.post('/api/transactions', ...)\<close>\<close>

definition post_transaction ::
  "(nat \<Rightarrow> bool) \<Rightarrow> nat \<Rightarrow> tx_body \<Rightarrow> db \<Rightarrow> transaction response \<times> db" where
  "post_transaction fails userId body d =
     (let accountId = or_null (tb_accountId body);
          categoryId = or_null (tb_categoryId body);
          incomeSourceId = or_null (tb_incomeSourceId body);
          type = tb_type body;
          amount = tb_amount body
      in settle d (do {
           _ \<leftarrow> query fails 0 (Some ());
           (row, d1) \<leftarrow> query fails 1
              (insert_transaction userId accountId categoryId incomeSourceId type amount
                 (tb_description body) (tb_date body) d);
           let balanceChange = (if type = ''income'' then amount else - amount);
           d2 \<leftarrow> query fails 2 (update_balance balanceChange accountId userId d1);
           _ \<leftarrow> query fails 3 (Some ());
           Some (Ok row, d2)
         }))"

text \<open>\<^verbatim>\<open>app.put('/api/transactions/:id', ...)\<close>\<close>

definition put_transaction ::
  "(nat \<Rightarrow> bool) \<Rightarrow> nat \<Rightarrow> string \<Rightarrow> tx_body \<Rightarrow> db \<Rightarrow> transaction option response \<times> db" where
  "put_transaction fails userId id' body d =
     (let accountId = tb_accountId body;
          type = tb_type body;
          amount = tb_amount body
      in settle d (do {
           _ \<leftarrow> query fails 0 (Some ());
           oldTx \<leftarrow> query fails 1 (select_transaction id' userId d);
           (case oldTx of
              [] \<Rightarrow> do {
                _ \<leftarrow> query fails 2 (Some ());
                Some (Failure 404, d)
              }
            | old # _ \<Rightarrow> do {
                let oldBalanceChange =
                  (if tx_type old = ''income'' then - decimal (tx_amount old)
                   else decimal (tx_amount old));
                d1 \<leftarrow> query fails 2 (update_balance oldBalanceChange (tx_account_id old) userId d);
                (rows, d2) \<leftarrow> query fails 3
                   (update_transaction accountId (tb_categoryId body) (tb_incomeSourceId body)
                      type amount (tb_description body) (tb_date body) id' userId d1);
                let newBalanceChange = (if type = ''income'' then amount else - amount);
                d3 \<leftarrow> query fails 4 (update_balance newBalanceChange accountId userId d2);
                _ \<leftarrow> query fails 5 (Some ());
                Some (Ok (first_row rows), d3)
              })
         }))"

text \<open>\<^verbatim>\<open>app.delete('/api/transactions/:id', ...)\<close>\<close>

definition delete_transaction ::
  "(nat \<Rightarrow> bool) \<Rightarrow> nat \<Rightarrow> string \<Rightarrow> db \<Rightarrow> message response \<times> db" where
  "delete_transaction fails userId id' d =
     settle d (do {
       _ \<leftarrow> query fails 0 (Some ());
       result \<leftarrow> query fails 1 (select_transaction id' userId d);
       (case result of
          [] \<Rightarrow> do {
            _ \<leftarrow> query fails 2 (Some ());
            Some (Failure 404, d)
          }
        | transaction # _ \<Rightarrow> do {
            let balanceChange =
              (if tx_type transaction = ''income'' then - decimal (tx_amount transaction)
               else decimal (tx_amount transaction));
            d1 \<leftarrow> query fails 2 (update_balance balanceChange (tx_account_id transaction) userId d);
            d2 \<leftarrow> query fails 3 (delete_transaction_row id' userId d1);
            _ \<leftarrow> query fails 4 (Some ());
            Some (Ok Deleted, d2)
          })
     })"

subsection \<open>Exchange handlers\<close>

text \<open>The column constraints of \<^verbatim>\<open>exchange_operations\<close>: the two foreign keys,
  \<^verbatim>\<open>DECIMAL(15, 2)\<close>, \<^verbatim>\<open>VARCHAR(3)\<close> and \<^verbatim>\<open>DECIMAL(10, 6)\<close> (the rate in millionths), each
  decimal on the rounded value.\<close>

definition exchange_columns_ok ::
  "db \<Rightarrow> nat option \<Rightarrow> nat option \<Rightarrow> rat \<Rightarrow> rat \<Rightarrow> string \<Rightarrow> string \<Rightarrow> rat \<Rightarrow> bool" where
  "exchange_columns_ok d fromAccountId toAccountId fromAmount toAmount fromCurrency toCurrency
       exchangeRate \<longleftrightarrow>
     references fromAccountId (map acc_id (accounts d)) \<and>
     references toAccountId (map acc_id (accounts d)) \<and>
     fits_decimal_15_2 (pg_round 2 fromAmount) \<and> fits_decimal_15_2 (pg_round 2 toAmount) \<and>
     length fromCurrency \<le> 3 \<and> length toCurrency \<le> 3 \<and> \<bar>pg_round 6 exchangeRate\<bar> < 10 ^ 10"

text \<open>\<^verbatim>\<open>SELECT * FROM exchange_operations WHERE id = $1 AND user_id = $2\<close>\<close>

definition select_exchange :: "string \<Rightarrow> nat \<Rightarrow> db \<Rightarrow> exchange_operation list option" where
  "select_exchange id' userId d =
     (case int4_in id' of
        None \<Rightarrow> None
      | Some n \<Rightarrow>
          Some (filter (\<lambda>e. int (ex_id e) = n \<and> ex_user_id e = userId) (exchange_operations d)))"

text \<open>\<^verbatim>\<open>INSERT INTO exchange_operations (...) VALUES (...) RETURNING *\<close>\<close>

definition insert_exchange :: "nat \<Rightarrow> ex_body \<Rightarrow> db \<Rightarrow> (exchange_operation \<times> db) option" where
  "insert_exchange userId body d =
     (if userId \<in> set (users d) \<and>
         exchange_columns_ok d (eb_fromAccountId body) (eb_toAccountId body) (eb_fromAmount body)
           (eb_toAmount body) (eb_fromCurrency body) (eb_toCurrency body) (eb_exchangeRate body)
      then let row = \<lparr>ex_id = exchange_operations_id_seq d, ex_user_id = userId,
                      from_account_id = eb_fromAccountId body, to_account_id = eb_toAccountId body,
                      from_amount = pg_round 2 (eb_fromAmount body),
                      to_amount = pg_round 2 (eb_toAmount body),
                      from_currency = eb_fromCurrency body, to_currency = eb_toCurrency body,
                      exchange_rate = pg_round 6 (eb_exchangeRate body), ex_date = eb_date body\<rparr>
           in Some (row, d\<lparr>exchange_operations := exchange_operations d @ [row],
                           exchange_operations_id_seq := Suc (exchange_operations_id_seq d)\<rparr>)
      else None)"

text \<open>\<^verbatim>\<open>UPDATE exchange_operations SET from_account_id = $1, ..., date = $8
  WHERE id = $9 AND user_id = $10 RETURNING *\<close>\<close>

definition update_exchange ::
  "ex_body \<Rightarrow> string \<Rightarrow> nat \<Rightarrow> db \<Rightarrow> (exchange_operation list \<times> db) option" where
  "update_exchange body id' userId d =
     (case int4_in id' of
        None \<Rightarrow> None
      | Some n \<Rightarrow>
          let hit = (\<lambda>e. int (ex_id e) = n \<and> ex_user_id e = userId);
              set_columns = (\<lambda>e. e\<lparr>from_account_id := eb_fromAccountId body,
                                    to_account_id := eb_toAccountId body,
                                    from_amount := pg_round 2 (eb_fromAmount body),
                                    to_amount := pg_round 2 (eb_toAmount body),
                                    from_currency := eb_fromCurrency body,
                                    to_currency := eb_toCurrency body,
                                    exchange_rate := pg_round 6 (eb_exchangeRate body),
                                    ex_date := eb_date body\<rparr>)
          in if list_ex hit (exchange_operations d) \<and>
                \<not> exchange_columns_ok d (eb_fromAccountId body) (eb_toAccountId body)
                    (eb_fromAmount body) (eb_toAmount body) (eb_fromCurrency body)
                    (eb_toCurrency body) (eb_exchangeRate body)
             then None
             else Some (map set_columns (filter hit (exchange_operations d)),
                        d\<lparr>exchange_operations :=
                            map (\<lambda>e. if hit e then set_columns e else e) (exchange_operations d)\<rparr>))"

text \<open>\<^verbatim>\<open>DELETE FROM exchange_operations WHERE id = $1 AND user_id = $2\<close>\<close>

definition delete_exchange_row :: "string \<Rightarrow> nat \<Rightarrow> db \<Rightarrow> db option" where
  "delete_exchange_row id' userId d =
     (case int4_in id' of
        None \<Rightarrow> None
      | Some n \<Rightarrow>
          Some (d\<lparr>exchange_operations :=
                   filter (\<lambda>e. \<not> (int (ex_id e) = n \<and> ex_user_id e = userId))
                     (exchange_operations d)\<rparr>))"

text \<open>\<^verbatim>\<open>app.post('/api/exchanges', ...)\<close>. \<^verbatim>\<open>balance = balance - $1\<close> adds the negated
  amount.\<close>

definition post_exchange ::
  "(nat \<Rightarrow> bool) \<Rightarrow> nat \<Rightarrow> ex_body \<Rightarrow> db \<Rightarrow> exchange_operation response \<times> db" where
  "post_exchange fails userId body d =
     settle d (do {
       _ \<leftarrow> query fails 0 (Some ());
       (row, d1) \<leftarrow> query fails 1 (insert_exchange userId body d);
       d2 \<leftarrow> query fails 2 (update_balance (- eb_fromAmount body) (eb_fromAccountId body) userId d1);
       d3 \<leftarrow> query fails 3 (update_balance (eb_toAmount body) (eb_toAccountId body) userId d2);
       _ \<leftarrow> query fails 4 (Some ());
       Some (Ok row, d3)
     })"

text \<open>\<^verbatim>\<open>app.put('/api/exchanges/:id', ...)\<close>\<close>

definition put_exchange ::
  "(nat \<Rightarrow> bool) \<Rightarrow> nat \<Rightarrow> string \<Rightarrow> ex_body \<Rightarrow> db \<Rightarrow> exchange_operation option response \<times> db"
  where
  "put_exchange fails userId id' body d =
     settle d (do {
       _ \<leftarrow> query fails 0 (Some ());
       oldResult \<leftarrow> query fails 1 (select_exchange id' userId d);
       (case oldResult of
          [] \<Rightarrow> do {
            _ \<leftarrow> query fails 2 (Some ());
            Some (Failure 404, d)
          }
        | oldExchange # _ \<Rightarrow> do {
            d1 \<leftarrow> query fails 2
               (update_balance (decimal (from_amount oldExchange)) (from_account_id oldExchange)
                  userId d);
            d2 \<leftarrow> query fails 3
               (update_balance (- decimal (to_amount oldExchange)) (to_account_id oldExchange)
                  userId d1);
            (rows, d3) \<leftarrow> query fails 4 (update_exchange body id' userId d2);
            d4 \<leftarrow> query fails 5
               (update_balance (- eb_fromAmount body) (eb_fromAccountId body) userId d3);
            d5 \<leftarrow> query fails 6
               (update_balance (eb_toAmount body) (eb_toAccountId body) userId d4);
            _ \<leftarrow> query fails 7 (Some ());
            Some (Ok (first_row rows), d5)
          })
     })"

text \<open>\<^verbatim>\<open>app.delete('/api/exchanges/:id', ...)\<close>\<close>

definition delete_exchange ::
  "(nat \<Rightarrow> bool) \<Rightarrow> nat \<Rightarrow> string \<Rightarrow> db \<Rightarrow> message response \<times> db" where
  "delete_exchange fails userId id' d =
     settle d (do {
       _ \<leftarrow> query fails 0 (Some ());
       result \<leftarrow> query fails 1 (select_exchange id' userId d);
       (case result of
          [] \<Rightarrow> do {
            _ \<leftarrow> query fails 2 (Some ());
            Some (Failure 404, d)
          }
        | exchange # _ \<Rightarrow> do {
            d1 \<leftarrow> query fails 2
               (update_balance (decimal (from_amount exchange)) (from_account_id exchange)
                  userId d);
            d2 \<leftarrow> query fails 3
               (update_balance (- decimal (to_amount exchange)) (to_account_id exchange)
                  userId d1);
            d3 \<leftarrow> query fails 4 (delete_exchange_row id' userId d2);
            _ \<leftarrow> query fails 5 (Some ());
            Some (Ok Deleted, d3)
          })
     })"

subsection \<open>Requests in sequence\<close>

text \<open>A ledger request of one user, with the store faults met while it is handled.\<close>

datatype request =
    PostTransaction tx_body
  | PutTransaction string tx_body
  | DeleteTransaction string
  | PostExchange ex_body
  | PutExchange string ex_body
  | DeleteExchange string

fun handle :: "nat \<Rightarrow> (nat \<Rightarrow> bool) \<times> request \<Rightarrow> db \<Rightarrow> db" where
  "handle userId (fails, PostTransaction body) d = snd (post_transaction fails userId body d)"
| "handle userId (fails, PutTransaction id' body) d = snd (put_transaction fails userId id' body d)"
| "handle userId (fails, DeleteTransaction id') d = snd (delete_transaction fails userId id' d)"
| "handle userId (fails, PostExchange body) d = snd (post_exchange fails userId body d)"
| "handle userId (fails, PutExchange id' body) d = snd (put_exchange fails userId id' body d)"
| "handle userId (fails, DeleteExchange id') d = snd (delete_exchange fails userId id' d)"

fun run :: "nat \<Rightarrow> ((nat \<Rightarrow> bool) \<times> request) list \<Rightarrow> db \<Rightarrow> db" where
  "run userId [] d = d"
| "run userId (r # rs) d = run userId rs (handle userId r d)"

text \<open>The requests whose amounts have at most two decimals.\<close>

fun cent_amounts :: "request \<Rightarrow> bool" where
  "cent_amounts (PostTransaction b) = two_decimals (tb_amount b)"
| "cent_amounts (PutTransaction i b) = two_decimals (tb_amount b)"
| "cent_amounts (DeleteTransaction i) = True"
| "cent_amounts (PostExchange e) = (two_decimals (eb_fromAmount e) \<and> two_decimals (eb_toAmount e))"
| "cent_amounts (PutExchange i e) = (two_decimals (eb_fromAmount e) \<and> two_decimals (eb_toAmount e))"
| "cent_amounts (DeleteExchange i) = True"

section \<open>Ledger consistency\<close>

text \<open>The row of an account id, its balance and its owner.\<close>

definition find_account :: "db \<Rightarrow> nat \<Rightarrow> account option" where
  "find_account d aid = find (\<lambda>a. acc_id a = aid) (accounts d)"

definition balance_of :: "db \<Rightarrow> nat \<Rightarrow> int option" where
  "balance_of d aid = map_option acc_balance (find_account d aid)"

definition owner_of :: "db \<Rightarrow> nat \<Rightarrow> nat option" where
  "owner_of d aid = map_option acc_user_id (find_account d aid)"

text \<open>
  The signed delta of a transaction: \<open>+amount\<close> for \<^verbatim>\<open>income\<close>, \<open>-amount\<close> for \<^verbatim>\<open>expense\<close>.
  The handlers test \<^verbatim>\<open>type === 'income'\<close> only, so every other type string is signed as an
  expense. An exchange has two legs: \<open>-fromAmount\<close> on its source account and \<open>+toAmount\<close> on
  its target account.
\<close>

definition tx_delta :: "transaction \<Rightarrow> int" where
  "tx_delta t = (if tx_type t = ''income'' then tx_amount t else - tx_amount t)"

definition tx_effect_on :: "nat \<Rightarrow> transaction \<Rightarrow> int" where
  "tx_effect_on aid t = (if tx_account_id t = Some aid then tx_delta t else 0)"

definition ex_effect_on :: "nat \<Rightarrow> exchange_operation \<Rightarrow> int" where
  "ex_effect_on aid e =
     (if to_account_id e = Some aid then to_amount e else 0) -
     (if from_account_id e = Some aid then from_amount e else 0)"

text \<open>The sum of the signed deltas of all stored transactions and exchange legs that
  reference an account.\<close>

definition ledger_effect :: "db \<Rightarrow> nat \<Rightarrow> int" where
  "ledger_effect d aid =
     sum_list (map (tx_effect_on aid) (transactions d)) +
     sum_list (map (ex_effect_on aid) (exchange_operations d))"

text \<open>What the schema keeps true of every stored state: the primary keys are unique, a
  sequence is ahead of the ids it has given out, and a balance fits its column.\<close>

definition schema_ok :: "db \<Rightarrow> bool" where
  "schema_ok d \<longleftrightarrow>
     distinct (map acc_id (accounts d)) \<and>
     list_all (\<lambda>a. fits_decimal_15_2 (acc_balance a)) (accounts d) \<and>
     distinct (map tx_id (transactions d)) \<and>
     list_all (\<lambda>t. tx_id t < transactions_id_seq d) (transactions d) \<and>
     distinct (map ex_id (exchange_operations d)) \<and>
     list_all (\<lambda>e. ex_id e < exchange_operations_id_seq d) (exchange_operations d)"

section \<open>Budgets\<close>

text \<open>
  The body of \<^verbatim>\<open>POST /api/budgets\<close>. \<^verbatim>\<open>month\<close> is a number, or a string \<^verbatim>\<open>"YYYY-MM"\<close>
  that the handler splits at the dash and reads with \<^verbatim>\<open>parseInt\<close>: \<open>YearMonth y m\<close> holds the
  two numbers read, with 0 where \<^verbatim>\<open>parseInt\<close> gives \<^verbatim>\<open>NaN\<close> (both are falsy, and the
  handler only tests them with \<^verbatim>\<open>!\<close>).
\<close>

datatype month_field = MonthNumber int | YearMonth int int

record budget_body =
  bb_categoryId :: "nat option"
  bb_month :: "month_field option"
  bb_year :: "int option"
  bb_limitAmount :: "int option"
  bb_amount :: "int option"
  bb_currency :: "string option"
  bb_entityId :: "nat option"
  bb_entityType :: "string option"

text \<open>JavaScript truthiness of an optional number and of an optional string.\<close>

definition truthy_nat :: "nat option \<Rightarrow> bool" where
  "truthy_nat x = (case x of None \<Rightarrow> False | Some n \<Rightarrow> n \<noteq> 0)"

definition truthy_int :: "int option \<Rightarrow> bool" where
  "truthy_int x = (case x of None \<Rightarrow> False | Some n \<Rightarrow> n \<noteq> 0)"

definition truthy_string :: "string option \<Rightarrow> bool" where
  "truthy_string x = (case x of None \<Rightarrow> False | Some s \<Rightarrow> s \<noteq> [])"

text \<open>The table has \<^verbatim>\<open>UNIQUE(user_id, category_id, month, year, currency)\<close>; a null
  \<^verbatim>\<open>category_id\<close> never conflicts.\<close>

definition budget_key_taken :: "db \<Rightarrow> nat \<Rightarrow> nat option \<Rightarrow> int \<Rightarrow> int \<Rightarrow> string \<Rightarrow> bool" where
  "budget_key_taken d userId categoryId month year currency \<longleftrightarrow>
     categoryId \<noteq> None \<and>
     list_ex (\<lambda>b. bud_user_id b = userId \<and> bud_category_id b = categoryId \<and>
                  bud_month b = month \<and> bud_year b = year \<and> bud_currency b = currency)
       (budgets d)"

text \<open>\<^verbatim>\<open>INSERT INTO budgets (user_id, category_id, month, year, limit_amount, currency)
  VALUES ($1, $2, $3, $4, $5, $6) RETURNING ...\<close>: the four \<^verbatim>\<open>NOT NULL\<close> columns, the two
  foreign keys, the \<^verbatim>\<open>INTEGER\<close>, \<^verbatim>\<open>DECIMAL(15, 2)\<close> and \<^verbatim>\<open>VARCHAR(3)\<close> ranges, and the
  unique key.\<close>

definition insert_budget ::
  "nat \<Rightarrow> nat option \<Rightarrow> int option \<Rightarrow> int option \<Rightarrow> int option \<Rightarrow> string option \<Rightarrow> db
     \<Rightarrow> (budget \<times> db) option" where
  "insert_budget userId categoryId month year limitAmount currency d =
     (case (month, year, limitAmount, currency) of
        (Some m, Some y, Some l, Some c) \<Rightarrow>
          if userId \<in> set (users d) \<and> references categoryId (categories d) \<and>
             \<bar>m\<bar> < 2 ^ 31 \<and> \<bar>y\<bar> < 2 ^ 31 \<and> fits_decimal_15_2 l \<and> length c \<le> 3 \<and>
             \<not> budget_key_taken d userId categoryId m y c
          then let row = \<lparr>bud_id = budgets_id_seq d, bud_user_id = userId,
                          bud_category_id = categoryId, bud_month = m, bud_year = y,
                          bud_limit_amount = l, bud_currency = c\<rparr>
               in Some (row, d\<lparr>budgets := budgets d @ [row],
                               budgets_id_seq := Suc (budgets_id_seq d)\<rparr>)
          else None
      | _ \<Rightarrow> None)"

text \<open>\<^verbatim>\<open>app.post('/api/budgets', ...)\<close>, the handler that writes the \<^verbatim>\<open>currency\<close> column.
  \<open>now\<close> is the month (1 to 12) and the year of \<^verbatim>\<open>new Date()\<close>. The statement runs on the
  pool, outside a transaction: it is stored when it succeeds.\<close>

definition post_budget ::
  "(nat \<Rightarrow> bool) \<Rightarrow> int \<times> int \<Rightarrow> nat \<Rightarrow> budget_body \<Rightarrow> db \<Rightarrow> budget response \<times> db" where
  "post_budget fails now userId body d =
     (let categoryId =
            (if truthy_nat (bb_entityId body) \<and> truthy_string (bb_entityType body)
             then (if bb_entityType body = Some ''category'' then bb_entityId body
                   else bb_categoryId body)
             else bb_categoryId body);
          categoryId = or_null categoryId;
          (month, year) =
            (case bb_month body of
               Some (YearMonth y m) \<Rightarrow> (Some m, Some y)
             | Some (MonthNumber m) \<Rightarrow> (Some m, bb_year body)
             | None \<Rightarrow> (None, bb_year body));
          (month, year) =
            (if \<not> truthy_int month \<or> \<not> truthy_int year
             then (if truthy_int month then month else Some (fst now),
                   if truthy_int year then year else Some (snd now))
             else (month, year));
          limitAmount =
            (if truthy_int (bb_amount body) \<and> \<not> truthy_int (bb_limitAmount body)
             then bb_amount body else bb_limitAmount body)
      in case query fails 0
                (insert_budget userId categoryId month year limitAmount (bb_currency body) d) of
           Some (row, d') \<Rightarrow> (Created row, d')
         | None \<Rightarrow> (Failure 500, d))"

section \<open>Dashboard metrics\<close>

subsection \<open>JavaScript numbers\<close>

text \<open>
  A number is a finite value, \<^verbatim>\<open>NaN\<close> or an infinity. Arithmetic on finite values is exact
  here: the rounding of IEEE doubles and the sign of zero are not modelled. Division by zero,
  \<^verbatim>\<open>NaN\<close> and the infinities behave as in JavaScript, so that a missing guard would show.
\<close>

datatype jsnum = Finite rat | NaN | PosInf | NegInf

fun js_neg :: "jsnum \<Rightarrow> jsnum" where
  "js_neg (Finite a) = Finite (- a)"
| "js_neg NaN = NaN"
| "js_neg PosInf = NegInf"
| "js_neg NegInf = PosInf"

fun js_add :: "jsnum \<Rightarrow> jsnum \<Rightarrow> jsnum" where
  "js_add (Finite a) (Finite b) = Finite (a + b)"
| "js_add NaN _ = NaN"
| "js_add _ NaN = NaN"
| "js_add PosInf NegInf = NaN"
| "js_add NegInf PosInf = NaN"
| "js_add PosInf _ = PosInf"
| "js_add _ PosInf = PosInf"
| "js_add NegInf _ = NegInf"
| "js_add _ NegInf = NegInf"

definition js_sub :: "jsnum \<Rightarrow> jsnum \<Rightarrow> jsnum" where
  "js_sub x y = js_add x (js_neg y)"

fun js_mul :: "jsnum \<Rightarrow> jsnum \<Rightarrow> jsnum" where
  "js_mul (Finite a) (Finite b) = Finite (a * b)"
| "js_mul NaN _ = NaN"
| "js_mul _ NaN = NaN"
| "js_mul (Finite a) y = (if a = 0 then NaN else if 0 < a then y else js_neg y)"
| "js_mul x (Finite b) = (if b = 0 then NaN else if 0 < b then x else js_neg x)"
| "js_mul PosInf y = y"
| "js_mul NegInf y = js_neg y"

fun js_div :: "jsnum \<Rightarrow> jsnum \<Rightarrow> jsnum" where
  "js_div (Finite a) (Finite b) =
     (if b \<noteq> 0 then Finite (a / b)
      else if a = 0 then NaN else if 0 < a then PosInf else NegInf)"
| "js_div NaN _ = NaN"
| "js_div _ NaN = NaN"
| "js_div (Finite a) _ = Finite 0"
| "js_div x (Finite b) = (if 0 \<le> b then x else js_neg x)"
| "js_div _ _ = NaN"

text \<open>\<^verbatim>\<open>x > y\<close>\<close>

fun js_gt :: "jsnum \<Rightarrow> jsnum \<Rightarrow> bool" where
  "js_gt (Finite a) (Finite b) \<longleftrightarrow> b < a"
| "js_gt NaN _ \<longleftrightarrow> False"
| "js_gt _ NaN \<longleftrightarrow> False"
| "js_gt PosInf y \<longleftrightarrow> y \<noteq> PosInf"
| "js_gt x NegInf \<longleftrightarrow> x \<noteq> NegInf"
| "js_gt _ _ \<longleftrightarrow> False"

text \<open>\<^verbatim>\<open>x || 0\<close>: zero and \<^verbatim>\<open>NaN\<close> are falsy.\<close>

fun or_zero :: "jsnum \<Rightarrow> jsnum" where
  "or_zero (Finite a) = (if a = 0 then Finite 0 else Finite a)"
| "or_zero NaN = Finite 0"
| "or_zero x = x"

text \<open>\<^verbatim>\<open>parseFloat\<close> of the text of a \<^verbatim>\<open>DECIMAL(15, 2)\<close> sum, given in hundredths.\<close>

definition parseFloat :: "int \<Rightarrow> jsnum" where
  "parseFloat total' = Finite (of_int total' / 100)"

text \<open>
  \<^verbatim>\<open>x.toFixed(f)\<close>: the integer nearest to \<open>\<bar>x\<bar> * 10 ^ f\<close> (the larger one of two), written
  in decimal with at least one digit before the point, behind the sign of a negative \<open>x\<close>. The
  exponent notation that JavaScript uses from \<open>10 ^ 21\<close> on is not modelled.
\<close>

definition digit_char :: "int \<Rightarrow> char" where
  "digit_char n = ''0123456789'' ! nat n"

function digits_of :: "int \<Rightarrow> string" where
  "digits_of n = (if n < 10 then [digit_char n] else digits_of (n div 10) @ [digit_char (n mod 10)])"
  by pat_completeness auto
termination
  by (relation "measure nat") auto

definition toFixed :: "nat \<Rightarrow> jsnum \<Rightarrow> string" where
  "toFixed f x =
     (case x of
        NaN \<Rightarrow> ''NaN''
      | PosInf \<Rightarrow> ''Infinity''
      | NegInf \<Rightarrow> ''-Infinity''
      | Finite r \<Rightarrow>
          let ds = digits_of \<lfloor>\<bar>r\<bar> * 10 ^ f + 1 / 2\<rfloor>;
              ds = replicate (Suc f - length ds) CHR ''0'' @ ds;
              body = (if f = 0 then ds
                      else take (length ds - f) ds @ ''.'' @ drop (length ds - f) ds)
          in if r < 0 then ''-'' @ body else body)"

text \<open>\<^verbatim>\<open>s.toLowerCase()\<close> on the letters A to Z.\<close>

definition lower_char :: "char \<Rightarrow> char" where
  "lower_char c =
     (let n = of_char c :: int in if 65 \<le> n \<and> n \<le> 90 then char_of (n + 32) else c)"

definition toLowerCase :: "string \<Rightarrow> string" where
  "toLowerCase s = map lower_char s"

subsection \<open>Objects keyed by currency\<close>

text \<open>An object is the list of its properties in insertion order. (JavaScript lists keys
  that look like array indices first; a currency code of digits is not treated apart here.)\<close>

fun assign :: "(string \<times> 'v) list \<Rightarrow> string \<Rightarrow> 'v \<Rightarrow> (string \<times> 'v) list" where
  "assign [] k v = [(k, v)]"
| "assign (p # ps) k v = (if fst p = k then (k, v) # ps else p # assign ps k v)"

text \<open>\<^verbatim>\<open>if (!obj[k]) obj[k] = v\<close> for object values \<open>v\<close>.\<close>

definition ensure :: "(string \<times> 'v) list \<Rightarrow> string \<Rightarrow> 'v \<Rightarrow> (string \<times> 'v) list" where
  "ensure obj k v = (case map_of obj k of None \<Rightarrow> assign obj k v | Some _ \<Rightarrow> obj)"

subsection \<open>The queries\<close>

text \<open>\<^verbatim>\<open>SELECT currency, SUM(x) as total FROM ... WHERE user_id = $1 GROUP BY currency\<close>
  over the (currency, x) pairs of the user's rows. SQL leaves the order of the groups open;
  here it is the order of the last rows of the groups.\<close>

definition sum_by_currency :: "(string \<times> int) list \<Rightarrow> (string \<times> int) list" where
  "sum_by_currency rows =
     map (\<lambda>c. (c, sum_list (map snd (filter (\<lambda>r. fst r = c) rows)))) (remdups (map fst rows))"

definition select_account_totals :: "nat \<Rightarrow> db \<Rightarrow> (string \<times> int) list" where
  "select_account_totals userId d =
     sum_by_currency (map (\<lambda>a. (acc_currency a, acc_balance a))
       (filter (\<lambda>a. acc_user_id a = userId) (accounts d)))"

definition select_valued_totals :: "nat \<Rightarrow> valued_row list \<Rightarrow> (string \<times> int) list" where
  "select_valued_totals userId rows =
     sum_by_currency (map (\<lambda>r. (val_currency r, val_amount r))
       (filter (\<lambda>r. val_user_id r = userId) rows))"

text \<open>\<^verbatim>\<open>SELECT currency, SUM(balance) as total FROM accounts WHERE user_id = $1 AND
  is_emergency_fund = true GROUP BY currency\<close>\<close>

definition select_emergency_totals :: "nat \<Rightarrow> db \<Rightarrow> (string \<times> int) list" where
  "select_emergency_totals userId d =
     sum_by_currency (map (\<lambda>a. (acc_currency a, acc_balance a))
       (filter (\<lambda>a. acc_user_id a = userId \<and> acc_is_emergency_fund a) (accounts d)))"

text \<open>\<^verbatim>\<open>SELECT a.currency, t.type, SUM(t.amount) as total FROM transactions t
  JOIN accounts a ON t.account_id = a.id WHERE t.user_id = $1 AND EXTRACT(MONTH FROM t.date) = $2
  AND EXTRACT(YEAR FROM t.date) = $3 GROUP BY a.currency, t.type\<close>\<close>

definition select_monthly_totals :: "nat \<Rightarrow> int \<Rightarrow> int \<Rightarrow> db \<Rightarrow> (string \<times> string \<times> int) list" where
  "select_monthly_totals userId currentMonth currentYear d =
     (let joined =
            concat (map (\<lambda>t. map (\<lambda>a. ((acc_currency a, tx_type t), tx_amount t))
                               (filter (\<lambda>a. tx_account_id t = Some (acc_id a)) (accounts d)))
              (filter (\<lambda>t. tx_user_id t = userId \<and> fst (snd (tx_date t)) = currentMonth \<and>
                            fst (tx_date t) = currentYear) (transactions d)))
      in map (\<lambda>g. (fst g, snd g, sum_list (map snd (filter (\<lambda>r. fst r = g) joined))))
           (remdups (map fst joined)))"

subsection \<open>The handler\<close>

record monthly_totals =
  income :: jsnum
  expenses :: jsnum

record currency_totals =
  assets_total :: jsnum
  liabilities_total :: jsnum

text \<open>A bucket of \<^verbatim>\<open>metrics\<close> as the first loop builds it (\<^verbatim>\<open>monthly\<close> is flattened into
  four fields), and with the two properties the second loop adds.\<close>

record metric =
  totalAssets :: jsnum
  totalLiabilities :: jsnum
  netWorth :: jsnum
  debtRatio :: jsnum
  monthly_income :: jsnum
  monthly_expenses :: jsnum
  monthly_balance :: jsnum
  monthly_savingsRate :: string

record dashboard_metric = metric +
  emergencyFundMonths :: string
  emergencyFundValue :: jsnum

text \<open>The body of \<^verbatim>\<open>monthlyTransactions.rows.forEach\<close>\<close>

definition add_monthly_row ::
  "(string \<times> monthly_totals) list \<Rightarrow> string \<times> string \<times> int \<Rightarrow> (string \<times> monthly_totals) list" where
  "add_monthly_row monthlyByCurrency row =
     (case row of (currency, type, total') \<Rightarrow>
        let obj = ensure monthlyByCurrency currency \<lparr>income = Finite 0, expenses = Finite 0\<rparr>
        in case map_of obj currency of
             None \<Rightarrow> obj
           | Some m \<Rightarrow>
               if toLowerCase type = ''income''
               then assign obj currency (m\<lparr>income := js_add (income m) (parseFloat total')\<rparr>)
               else if toLowerCase type = ''expense''
               then assign obj currency (m\<lparr>expenses := js_add (expenses m) (parseFloat total')\<rparr>)
               else obj)"

text \<open>The bodies of the four \<^verbatim>\<open>forEach\<close> loops that fill \<^verbatim>\<open>byCurrency\<close>\<close>

definition add_assets ::
  "(string \<times> currency_totals) list \<Rightarrow> string \<times> int \<Rightarrow> (string \<times> currency_totals) list" where
  "add_assets byCurrency r =
     (let obj = ensure byCurrency (fst r) \<lparr>assets_total = Finite 0, liabilities_total = Finite 0\<rparr>
      in case map_of obj (fst r) of
           None \<Rightarrow> obj
         | Some t \<Rightarrow>
             assign obj (fst r) (t\<lparr>assets_total := js_add (assets_total t) (parseFloat (snd r))\<rparr>))"

definition add_liabilities ::
  "(string \<times> currency_totals) list \<Rightarrow> string \<times> int \<Rightarrow> (string \<times> currency_totals) list" where
  "add_liabilities byCurrency r =
     (let obj = ensure byCurrency (fst r) \<lparr>assets_total = Finite 0, liabilities_total = Finite 0\<rparr>
      in case map_of obj (fst r) of
           None \<Rightarrow> obj
         | Some t \<Rightarrow>
             assign obj (fst r)
               (t\<lparr>liabilities_total := js_add (liabilities_total t) (parseFloat (snd r))\<rparr>))"

text \<open>The body of \<^verbatim>\<open>Object.keys(byCurrency).forEach\<close>: one bucket, before the emergency
  fund is added.\<close>

definition currency_metric ::
  "(string \<times> monthly_totals) list \<Rightarrow> string \<Rightarrow> currency_totals \<Rightarrow> metric" where
  "currency_metric monthlyByCurrency currency data =
     (let monthly = (case map_of monthlyByCurrency currency of
                       None \<Rightarrow> \<lparr>income = Finite 0, expenses = Finite 0\<rparr>
                     | Some m \<Rightarrow> m);
          balance = js_sub (income monthly) (expenses monthly);
          savingsRate = (if js_gt (income monthly) (Finite 0)
                         then js_mul (js_div balance (income monthly)) (Finite 100)
                         else Finite 0)
      in \<lparr>totalAssets = assets_total data,
          totalLiabilities = liabilities_total data,
          netWorth = js_sub (assets_total data) (liabilities_total data),
          debtRatio = (if js_gt (assets_total data) (Finite 0)
                       then js_mul (js_div (liabilities_total data) (assets_total data)) (Finite 100)
                       else Finite 0),
          monthly_income = income monthly,
          monthly_expenses = expenses monthly,
          monthly_balance = balance,
          monthly_savingsRate = toFixed 2 savingsRate\<rparr>)"

text \<open>The body of \<^verbatim>\<open>Object.keys(metrics).forEach\<close>\<close>

definition add_emergency_fund ::
  "(string \<times> jsnum) list \<Rightarrow> string \<Rightarrow> metric \<Rightarrow> dashboard_metric" where
  "add_emergency_fund emergencyFundByCurrency currency m =
     (let fund = (case map_of emergencyFundByCurrency currency of
                    None \<Rightarrow> Finite 0
                  | Some x \<Rightarrow> or_zero x);
          expenses = or_zero (monthly_expenses m)
      in \<lparr>totalAssets = totalAssets m, totalLiabilities = totalLiabilities m,
          netWorth = netWorth m, debtRatio = debtRatio m,
          monthly_income = monthly_income m, monthly_expenses = monthly_expenses m,
          monthly_balance = monthly_balance m, monthly_savingsRate = monthly_savingsRate m,
          emergencyFundMonths =
            (if js_gt expenses (Finite 0) then toFixed 1 (js_div fund expenses) else ''0.0''),
          emergencyFundValue = fund\<rparr>)"

text \<open>\<^verbatim>\<open>app.get('/api/metrics/dashboard', ...)\<close>. \<open>now\<close> is the month and the year of
  \<^verbatim>\<open>new Date()\<close>. The six queries run on the pool, in this order.\<close>

definition get_dashboard ::
  "(nat \<Rightarrow> bool) \<Rightarrow> int \<times> int \<Rightarrow> nat \<Rightarrow> db \<Rightarrow> (string \<times> dashboard_metric) list response" where
  "get_dashboard fails now userId d =
     (case do {
        accountsResult \<leftarrow> query fails 0 (Some (select_account_totals userId d));
        investmentsResult \<leftarrow> query fails 1 (Some (select_valued_totals userId (investments d)));
        assetsResult \<leftarrow> query fails 2 (Some (select_valued_totals userId (assets d)));
        liabilitiesResult \<leftarrow> query fails 3 (Some (select_valued_totals userId (liabilities d)));
        monthlyTransactions \<leftarrow> query fails 4
           (Some (select_monthly_totals userId (fst now) (snd now) d));
        let monthlyByCurrency = foldl add_monthly_row [] monthlyTransactions;
        let monthlyByCurrency =
              ensure monthlyByCurrency ''BRL'' \<lparr>income = Finite 0, expenses = Finite 0\<rparr>;
        let monthlyByCurrency =
              ensure monthlyByCurrency ''EUR'' \<lparr>income = Finite 0, expenses = Finite 0\<rparr>;
        let byCurrency = foldl add_assets [] accountsResult;
        let byCurrency = foldl add_assets byCurrency investmentsResult;
        let byCurrency = foldl add_assets byCurrency assetsResult;
        let byCurrency = foldl add_liabilities byCurrency liabilitiesResult;
        let byCurrency =
              (if length byCurrency = 0
               then assign byCurrency ''BRL'' \<lparr>assets_total = Finite 0, liabilities_total = Finite 0\<rparr>
               else byCurrency);
        let metrics = map (\<lambda>(currency, data). (currency, currency_metric monthlyByCurrency currency data))
                        byCurrency;
        emergencyFundResult \<leftarrow> query fails 5 (Some (select_emergency_totals userId d));
        let emergencyFundByCurrency =
              foldl (\<lambda>obj r. assign obj (fst r) (parseFloat (snd r))) [] emergencyFundResult;
        Some (map (\<lambda>(currency, m). (currency, add_emergency_fund emergencyFundByCurrency currency m))
                metrics)
      } of
        Some metrics \<Rightarrow> Ok metrics
      | None \<Rightarrow> Failure 500)"

section \<open>A sample state\<close>

text \<open>Two users; user 1 owns accounts 1 and 2, user 2 owns account 3; one stored expense of
  100.00 on account 1; user 1 owes 50.00 in USD.\<close>

definition demo_db :: db where
  "demo_db = \<lparr>users = [1, 2],
     accounts = [\<lparr>acc_id = 1, acc_user_id = 1, acc_name = ''A'', acc_type = ''checking'',
                  acc_currency = ''BRL'', acc_balance = 50000, acc_is_emergency_fund = False\<rparr>,
                 \<lparr>acc_id = 2, acc_user_id = 1, acc_name = ''B'', acc_type = ''checking'',
                  acc_currency = ''EUR'', acc_balance = 10000, acc_is_emergency_fund = True\<rparr>,
                 \<lparr>acc_id = 3, acc_user_id = 2, acc_name = ''C'', acc_type = ''savings'',
                  acc_currency = ''BRL'', acc_balance = 70000, acc_is_emergency_fund = False\<rparr>],
     categories = [1, 2], income_sources = [1],
     transactions = [\<lparr>tx_id = 1, tx_user_id = 1, tx_account_id = Some 1, tx_category_id = Some 1,
                      tx_income_source_id = None, tx_type = ''expense'', tx_amount = 10000,
                      tx_description = ''rent'', tx_date = (2026, 2, 1)\<rparr>],
     transactions_id_seq = 2,
     exchange_operations = [], exchange_operations_id_seq = 1,
     budgets = [], budgets_id_seq = 1,
     investments = [], assets = [],
     liabilities = [\<lparr>val_user_id = 1, val_currency = ''USD'', val_amount = 5000\<rparr>]\<rparr>"

definition demo_body :: tx_body where
  "demo_body = \<lparr>tb_accountId = Some 2, tb_categoryId = Some 1, tb_incomeSourceId = None,
     tb_type = ''expense'', tb_amount = 100, tb_description = ''rent'', tb_date = (2026, 2, 1)\<rparr>"

definition rehome_body :: tx_body where
  "rehome_body = demo_body\<lparr>tb_accountId := Some 99\<rparr>"

definition foreign_body :: tx_body where
  "foreign_body = demo_body\<lparr>tb_accountId := Some 3\<rparr>"

definition demo_income :: tx_body where
  "demo_income = \<lparr>tb_accountId = Some 1, tb_categoryId = Some 2, tb_incomeSourceId = Some 1,
     tb_type = ''income'', tb_amount = 250, tb_description = ''salary'', tb_date = (2026, 2, 5)\<rparr>"

definition demo_exchange :: ex_body where
  "demo_exchange = \<lparr>eb_fromAccountId = Some 1, eb_toAccountId = Some 2, eb_fromAmount = 100,
     eb_toAmount = 20, eb_fromCurrency = ''BRL'', eb_toCurrency = ''EUR'',
     eb_exchangeRate = 1 / 5, eb_date = (2026, 2, 7)\<rparr>"

definition demo_requests :: "((nat \<Rightarrow> bool) \<times> request) list" where
  "demo_requests =
     [(no_faults, PostTransaction demo_income),
      (no_faults, PutTransaction ''1'' demo_body),
      (\<lambda>k. k = 3, DeleteTransaction ''1''),
      (no_faults, PostExchange demo_exchange),
      (no_faults, DeleteExchange ''1'')]"

definition expense_on_1 :: tx_body where
  "expense_on_1 = demo_body\<lparr>tb_accountId := Some 1\<rparr>"

text \<open>Requests with the amount 0.005, and an exchange from account 1 to itself.\<close>

definition half_cent_expense :: tx_body where
  "half_cent_expense = expense_on_1\<lparr>tb_amount := 1 / 200\<rparr>"

definition half_cent_move :: tx_body where
  "half_cent_move = demo_body\<lparr>tb_amount := 1 / 200\<rparr>"

definition half_cent_exchange :: ex_body where
  "half_cent_exchange = demo_exchange\<lparr>eb_fromAmount := 1 / 200, eb_toAmount := 1 / 200\<rparr>"

definition same_account_exchange :: ex_body where
  "same_account_exchange = demo_exchange\<lparr>eb_toAccountId := Some 1\<rparr>"

definition demo_budget :: budget_body where
  "demo_budget = \<lparr>bb_categoryId = Some 1, bb_month = Some (MonthNumber 2), bb_year = Some 2026,
     bb_limitAmount = Some 50000, bb_amount = None, bb_currency = Some ''BRL'',
     bb_entityId = None, bb_entityType = None\<rparr>"

text \<open>The USD bucket of the dashboard of user 1 in the sample state.\<close>

definition usd_bucket :: dashboard_metric where
  "usd_bucket = \<lparr>totalAssets = Finite 0, totalLiabilities = Finite 50, netWorth = Finite (- 50),
     debtRatio = Finite 0, monthly_income = Finite 0, monthly_expenses = Finite 0,
     monthly_balance = Finite 0, monthly_savingsRate = ''0.00'',
     emergencyFundMonths = ''0.0'', emergencyFundValue = Finite 0\<rparr>"


section \<open>Proof notions\<close>

text \<open>\<open>yields r Q\<close>: every outcome of a handler body satisfies \<open>Q\<close>. \<open>in_step u aid d d'\<close>: from
  \<open>d\<close> to \<open>d'\<close> the schema holds, account \<open>aid\<close> stays with user \<open>u\<close>, and its balance moved by
  as much as its ledger effect. \<open>set_balance accId u c\<close>: what the balance update does to one
  account row.\<close>

definition yields :: "('a response \<times> db) option \<Rightarrow> ('a response \<Rightarrow> db \<Rightarrow> bool) \<Rightarrow> bool" where
  "yields r Q \<longleftrightarrow> (\<forall>resp d'. r = Some (resp, d') \<longrightarrow> Q resp d')"

definition in_step :: "nat \<Rightarrow> nat \<Rightarrow> db \<Rightarrow> db \<Rightarrow> bool" where
  "in_step u aid d d' \<longleftrightarrow>
     schema_ok d' \<and> owner_of d' aid = Some u \<and>
     (\<forall>bal. balance_of d aid = Some bal \<longrightarrow>
        balance_of d' aid = Some (bal + ledger_effect d' aid - ledger_effect d aid))"

definition set_balance :: "nat option \<Rightarrow> nat \<Rightarrow> rat \<Rightarrow> account \<Rightarrow> account" where
  "set_balance accId u c a =
     (if account_matches accId u a then a\<lparr>acc_balance := add_decimal (acc_balance a) c\<rparr> else a)"

section \<open>Handler outcomes\<close>

lemma yields_None: "yields None Q"
  by (simp add: yields_def)

lemma yields_Some: "Q resp d' \<Longrightarrow> yields (Some (resp, d')) Q"
  by (simp add: yields_def)

lemma yields_bind: "(\<And>x. m = Some x \<Longrightarrow> yields (f x) Q) \<Longrightarrow> yields (m \<bind> f) Q"
  by (cases m) (simp_all add: yields_None)

lemma yields_settle:
  "yields r Q \<Longrightarrow> Q (Failure 500) d \<Longrightarrow> settle d r = (resp, d') \<Longrightarrow> Q resp d'"
  by (auto simp: yields_def settle_def split: option.splits)

lemma query_Some: "query fails k r = Some x \<longleftrightarrow> \<not> fails k \<and> r = Some x"
  by (simp add: query_def)

lemma post_transaction_cases:
  assumes "post_transaction fails u b d = (resp, d')"
  shows "(d' = d \<and> (\<exists>s. resp = Failure s)) \<or>
    (\<exists>row d1. resp = Ok row \<and>
       insert_transaction u (or_null (tb_accountId b)) (or_null (tb_categoryId b))
         (or_null (tb_incomeSourceId b)) (tb_type b) (tb_amount b) (tb_description b) (tb_date b) d
         = Some (row, d1) \<and>
       update_balance (if tb_type b = ''income'' then tb_amount b else - tb_amount b)
         (or_null (tb_accountId b)) u d1 = Some d')"
  using assms unfolding post_transaction_def Let_def
  by (rule yields_settle [rotated 2])
     (auto intro!: yields_bind yields_Some simp: query_Some split del: if_split)

lemma put_transaction_cases:
  assumes "put_transaction fails u i b d = (resp, d')"
  shows "(d' = d \<and> (\<exists>s. resp = Failure s)) \<or>
    (\<exists>old rest d1 rows d2. resp = Ok (first_row rows) \<and>
       select_transaction i u d = Some (old # rest) \<and>
       update_balance (if tx_type old = ''income'' then - decimal (tx_amount old)
          else decimal (tx_amount old))
         (tx_account_id old) u d = Some d1 \<and>
       update_transaction (tb_accountId b) (tb_categoryId b) (tb_incomeSourceId b) (tb_type b)
         (tb_amount b) (tb_description b) (tb_date b) i u d1 = Some (rows, d2) \<and>
       update_balance (if tb_type b = ''income'' then tb_amount b else - tb_amount b)
         (tb_accountId b) u d2 = Some d')"
  using assms unfolding put_transaction_def Let_def
  by (rule yields_settle [rotated 2])
     (auto intro!: yields_bind yields_Some simp: query_Some split: list.split split del: if_split)

lemma delete_transaction_cases:
  assumes "delete_transaction fails u i d = (resp, d')"
  shows "(d' = d \<and> (\<exists>s. resp = Failure s)) \<or>
    (\<exists>old rest d1. resp = Ok Deleted \<and>
       select_transaction i u d = Some (old # rest) \<and>
       update_balance (if tx_type old = ''income'' then - decimal (tx_amount old)
          else decimal (tx_amount old))
         (tx_account_id old) u d = Some d1 \<and>
       delete_transaction_row i u d1 = Some d')"
  using assms unfolding delete_transaction_def Let_def
  by (rule yields_settle [rotated 2])
     (auto intro!: yields_bind yields_Some simp: query_Some split: list.split split del: if_split)

lemma post_exchange_cases:
  assumes "post_exchange fails u b d = (resp, d')"
  shows "(d' = d \<and> (\<exists>s. resp = Failure s)) \<or>
    (\<exists>row d1 d2. resp = Ok row \<and>
       insert_exchange u b d = Some (row, d1) \<and>
       update_balance (- eb_fromAmount b) (eb_fromAccountId b) u d1 = Some d2 \<and>
       update_balance (eb_toAmount b) (eb_toAccountId b) u d2 = Some d')"
  using assms unfolding post_exchange_def Let_def
  by (rule yields_settle [rotated 2])
     (auto intro!: yields_bind yields_Some simp: query_Some split del: if_split)

lemma put_exchange_cases:
  assumes "put_exchange fails u i b d = (resp, d')"
  shows "(d' = d \<and> (\<exists>s. resp = Failure s)) \<or>
    (\<exists>old rest d1 d2 rows d3 d4. resp = Ok (first_row rows) \<and>
       select_exchange i u d = Some (old # rest) \<and>
       update_balance (decimal (from_amount old)) (from_account_id old) u d = Some d1 \<and>
       update_balance (- decimal (to_amount old)) (to_account_id old) u d1 = Some d2 \<and>
       update_exchange b i u d2 = Some (rows, d3) \<and>
       update_balance (- eb_fromAmount b) (eb_fromAccountId b) u d3 = Some d4 \<and>
       update_balance (eb_toAmount b) (eb_toAccountId b) u d4 = Some d')"
  using assms unfolding put_exchange_def Let_def
  by (rule yields_settle [rotated 2])
     (auto intro!: yields_bind yields_Some simp: query_Some split: list.split split del: if_split)

lemma delete_exchange_cases:
  assumes "delete_exchange fails u i d = (resp, d')"
  shows "(d' = d \<and> (\<exists>s. resp = Failure s)) \<or>
    (\<exists>old rest d1 d2. resp = Ok Deleted \<and>
       select_exchange i u d = Some (old # rest) \<and>
       update_balance (decimal (from_amount old)) (from_account_id old) u d = Some d1 \<and>
       update_balance (- decimal (to_amount old)) (to_account_id old) u d1 = Some d2 \<and>
       delete_exchange_row i u d2 = Some d')"
  using assms unfolding delete_exchange_def Let_def
  by (rule yields_settle [rotated 2])
     (auto intro!: yields_bind yields_Some simp: query_Some split: list.split split del: if_split)

subsection \<open>Rows with unique keys\<close>

lemma find_map_same:
  "(\<And>x. P (g x) = P x) \<Longrightarrow> find P (map g xs) = map_option g (find P xs)"
  by (induction xs) simp_all

lemma sum_list_map_replace:
  "distinct xs \<Longrightarrow> x \<in> set xs \<Longrightarrow>
     sum_list (map f (map (\<lambda>y. if y = x then g y else y) xs)) = sum_list (map f xs) - f x + f (g x)"
  for f :: "'a \<Rightarrow> int"
proof (induction xs)
  case Nil
  then show ?case by simp
next
  case (Cons a xs)
  show ?case
  proof (cases "a = x")
    case True
    with Cons.prems have "x \<notin> set xs" by simp
    then have "map (\<lambda>y. if y = x then g y else y) xs = xs"
      by (induction xs) auto
    with True show ?thesis by simp
  next
    case False
    with Cons show ?thesis by simp
  qed
qed

lemma sum_list_map_remove:
  "distinct xs \<Longrightarrow> x \<in> set xs \<Longrightarrow>
     sum_list (map f (filter (\<lambda>y. y \<noteq> x) xs)) = sum_list (map f xs) - f x"
  for f :: "'a \<Rightarrow> int"
proof (induction xs)
  case Nil
  then show ?case by simp
next
  case (Cons a xs)
  show ?case
  proof (cases "a = x")
    case True
    with Cons.prems have "x \<notin> set xs" by simp
    then have "filter (\<lambda>y. y \<noteq> x) xs = xs"
      by (induction xs) auto
    with True show ?thesis by simp
  next
    case False
    with Cons show ?thesis by simp
  qed
qed

lemma filter_key_head:
  assumes "distinct (map key xs)" and "filter (\<lambda>y. key y = k \<and> P y) xs = x # rest"
  shows "x \<in> set xs" and "key x = k" and "P x" and "\<forall>y\<in>set xs. (key y = k \<and> P y) \<longleftrightarrow> y = x"
proof -
  have mem: "x \<in> set (filter (\<lambda>y. key y = k \<and> P y) xs)"
    by (simp add: assms(2))
  then show "x \<in> set xs" and "key x = k" and "P x" by simp_all
  with assms(1) show "\<forall>y\<in>set xs. (key y = k \<and> P y) \<longleftrightarrow> y = x"
    by (auto simp: distinct_map dest: inj_onD)
qed

lemma distinct_some_int:
  "distinct (map key xs) \<Longrightarrow> distinct (map (\<lambda>x. Some (int (key x))) xs)"
  by (auto simp: distinct_map inj_on_def)

lemma select_transaction_rows:
  "select_transaction i u d = Some rows \<Longrightarrow>
     filter (\<lambda>t. Some (int (tx_id t)) = int4_in i \<and> tx_user_id t = u) (transactions d) = rows"
  by (auto simp: select_transaction_def split: option.splits)

lemma select_exchange_rows:
  "select_exchange i u d = Some rows \<Longrightarrow>
     filter (\<lambda>e. Some (int (ex_id e)) = int4_in i \<and> ex_user_id e = u) (exchange_operations d) = rows"
  by (auto simp: select_exchange_def split: option.splits)

lemma select_transaction_frame:
  "transactions d' = transactions d \<Longrightarrow> select_transaction i u d' = select_transaction i u d"
  by (simp add: select_transaction_def split: option.split)

lemma select_exchange_frame:
  "exchange_operations d' = exchange_operations d \<Longrightarrow>
     select_exchange i u d' = select_exchange i u d"
  by (simp add: select_exchange_def split: option.split)

subsection \<open>Rounding\<close>

lemma floor_half: "\<lfloor>of_int n + (1 / 2 :: rat)\<rfloor> = n"
  by linarith

lemma pg_round_decimal [simp]: "pg_round 2 (decimal n) = n"
proof -
  have "decimal n * 10 ^ 2 = of_int n" and "- decimal n * 10 ^ 2 = of_int (- n)"
    by (simp_all add: decimal_def)
  moreover have "decimal n < 0 \<longleftrightarrow> n < 0"
    by (simp add: decimal_def)
  ultimately show ?thesis
    unfolding pg_round_def by (simp only: floor_half split: if_split) simp
qed

lemma pg_round_minus [simp]: "pg_round s (- x) = - pg_round s x"
proof (cases "x = 0")
  case True
  have "\<lfloor>1 / 2 :: rat\<rfloor> = 0" by linarith
  with True show ?thesis by (simp add: pg_round_def)
next
  case False
  then show ?thesis by (auto simp: pg_round_def)
qed

lemma decimal_minus: "- decimal n = decimal (- n)"
  by (simp add: decimal_def)

lemma decimal_add: "decimal a + decimal b = decimal (a + b)"
  by (simp add: decimal_def add_divide_distrib)

lemma two_decimals_decimal [simp]: "two_decimals (decimal n)"
  by (simp add: two_decimals_def decimal_def)

lemma two_decimalsD: "two_decimals x \<Longrightarrow> x = decimal \<lfloor>x * 100\<rfloor>"
  unfolding two_decimals_def decimal_def by linarith

lemma two_decimals_minus [simp]: "two_decimals (- x) = two_decimals x"
proof -
  have "two_decimals (- y)" if "two_decimals y" for y
  proof -
    from that have "y = decimal \<lfloor>y * 100\<rfloor>"
      by (rule two_decimalsD)
    then have "- y = decimal (- \<lfloor>y * 100\<rfloor>)"
      by (metis decimal_minus)
    then show ?thesis
      by (metis two_decimals_decimal)
  qed
  from this [of x] this [of "- x"] show ?thesis by auto
qed

lemma decimal_pg_round: "two_decimals x \<Longrightarrow> decimal (pg_round 2 x) = x"
proof -
  assume "two_decimals x"
  then have "x = decimal \<lfloor>x * 100\<rfloor>"
    by (rule two_decimalsD)
  then show ?thesis
    by (metis pg_round_decimal)
qed

lemma add_decimal_decimal [simp]:
  "add_decimal b (decimal c) = b + c" "add_decimal b (- decimal c) = b - c"
  by (simp_all add: add_decimal_def decimal_minus decimal_add)

lemma add_decimal_exact: "two_decimals x \<Longrightarrow> add_decimal b x = b + pg_round 2 x"
  using add_decimal_decimal(1) [of b "pg_round 2 x"] by (simp add: decimal_pg_round)

lemma neg_exact: "two_decimals x \<Longrightarrow> two_decimals (- x)"
  by simp

lemmas neg_decimal_exact = neg_exact [OF two_decimals_decimal]

lemma forward_change:
  "two_decimals am \<Longrightarrow> two_decimals (if ty = ''income'' then am else - am)"
  "pg_round 2 (if ty = ''income'' then am else - am) =
     (if ty = ''income'' then pg_round 2 am else - pg_round 2 am)"
  by simp_all

subsection \<open>The balance update\<close>

lemma update_balance_state:
  "update_balance c accId u d = Some d' \<Longrightarrow>
     d' = d\<lparr>accounts := map (set_balance accId u c) (accounts d)\<rparr>"
  by (auto simp: update_balance_def set_balance_def [abs_def] split: if_splits)

lemma update_balance_frame:
  assumes "update_balance c accId u d = Some d'"
  shows "transactions d' = transactions d" and "exchange_operations d' = exchange_operations d"
    and "transactions_id_seq d' = transactions_id_seq d"
    and "exchange_operations_id_seq d' = exchange_operations_id_seq d"
    and "map acc_id (accounts d') = map acc_id (accounts d)"
    and "ledger_effect d' aid = ledger_effect d aid"
  using assms by (auto simp: update_balance_def ledger_effect_def split: if_splits)

lemma update_balance_find:
  assumes "update_balance c accId u d = Some d'"
  shows "find_account d' aid = map_option (set_balance accId u c) (find_account d aid)"
proof -
  have "acc_id (set_balance accId u c a) = acc_id a" for a
    by (simp add: set_balance_def)
  then show ?thesis
    unfolding find_account_def update_balance_state [OF assms] by (simp add: find_map_same)
qed

lemma find_account_id: "find_account d aid = Some a \<Longrightarrow> acc_id a = aid \<and> a \<in> set (accounts d)"
  by (auto simp: find_account_def find_Some_iff)

lemma update_balance_owner:
  "update_balance c accId u d = Some d' \<Longrightarrow> owner_of d' aid = owner_of d aid"
  by (cases "find_account d aid") (simp_all add: owner_of_def update_balance_find set_balance_def)

lemma update_balance_rounds:
  assumes "update_balance c accId u d = Some d'" and "owner_of d aid = Some w"
    and "balance_of d aid = Some bal"
  shows "balance_of d' aid = Some (if accId = Some aid \<and> w = u then add_decimal bal c else bal)"
proof -
  from assms(2) obtain a where a: "find_account d aid = Some a" "acc_user_id a = w"
    by (auto simp: owner_of_def)
  with assms(3) have "acc_balance a = bal" by (simp add: balance_of_def)
  moreover from a have "acc_id a = aid" by (simp add: find_account_id)
  ultimately show ?thesis
    using a
    by (simp add: balance_of_def update_balance_find [OF assms(1)] account_matches_def
        set_balance_def)
qed

lemma update_balance_balance:
  assumes "update_balance c accId u d = Some d'" and "owner_of d aid = Some w"
    and "balance_of d aid = Some bal" and "two_decimals c"
  shows "balance_of d' aid = Some (bal + (if accId = Some aid \<and> w = u then pg_round 2 c else 0))"
  using update_balance_rounds [OF assms(1-3)] by (simp add: add_decimal_exact [OF assms(4)])

lemma update_balance_schema:
  assumes "update_balance c accId u d = Some d'" and "schema_ok d"
  shows "schema_ok d'"
proof -
  note acc = update_balance_state [OF assms(1)]
  from assms(1) have fits:
    "list_all (\<lambda>a. account_matches accId u a \<longrightarrow> fits_decimal_15_2 (add_decimal (acc_balance a) c))
        (accounts d)"
    by (auto simp: update_balance_def split: if_splits)
  from assms(2) have "list_all (\<lambda>a. fits_decimal_15_2 (acc_balance a)) (accounts d)"
    by (simp add: schema_ok_def)
  with fits have "list_all (\<lambda>a. fits_decimal_15_2 (acc_balance a)) (accounts d')"
    unfolding acc by (auto simp: list_all_iff set_balance_def)
  with assms(2) show ?thesis
    by (simp add: schema_ok_def update_balance_frame [OF assms(1)])
qed

subsection \<open>Writing transaction rows\<close>

lemma insert_transaction_step:
  assumes "insert_transaction u accId catId srcId ty am descr dt d = Some (row, d1)"
  shows "transactions d1 = transactions d @ [row]" and "accounts d1 = accounts d"
    and "exchange_operations d1 = exchange_operations d"
    and "transactions_id_seq d1 = Suc (transactions_id_seq d)"
    and "exchange_operations_id_seq d1 = exchange_operations_id_seq d"
    and "tx_id row = transactions_id_seq d" and "tx_user_id row = u"
    and "tx_account_id row = accId" and "tx_type row = ty" and "tx_amount row = pg_round 2 am"
  using assms by (auto simp: insert_transaction_def Let_def split: if_splits)

lemma insert_transaction_schema:
  assumes "insert_transaction u accId catId srcId ty am descr dt d = Some (row, d1)"
    and "schema_ok d"
  shows "schema_ok d1"
  using assms(2) insert_transaction_step [OF assms(1)]
  by (auto simp: schema_ok_def list_all_iff less_Suc_eq)

lemma insert_transaction_effect:
  assumes "insert_transaction u accId catId srcId ty am descr dt d = Some (row, d1)"
  shows "ledger_effect d1 aid =
     ledger_effect d aid +
       (if accId = Some aid then (if ty = ''income'' then pg_round 2 am else - pg_round 2 am) else 0)"
  unfolding ledger_effect_def insert_transaction_step [OF assms]
  by (simp add: tx_effect_on_def tx_delta_def insert_transaction_step [OF assms])

lemma update_transaction_step:
  assumes "update_transaction accId catId srcId ty am descr dt i u d = Some (rows, d2)"
  shows "transactions d2 =
       map (\<lambda>t. if Some (int (tx_id t)) = int4_in i \<and> tx_user_id t = u
                 then t\<lparr>tx_account_id := accId, tx_category_id := catId,
                        tx_income_source_id := srcId, tx_type := ty, tx_amount := pg_round 2 am,
                        tx_description := descr, tx_date := dt\<rparr>
                 else t) (transactions d)"
    and "accounts d2 = accounts d" and "exchange_operations d2 = exchange_operations d"
    and "transactions_id_seq d2 = transactions_id_seq d"
    and "exchange_operations_id_seq d2 = exchange_operations_id_seq d"
  using assms by (auto simp: update_transaction_def Let_def split: if_splits option.splits)

lemma update_transaction_schema:
  assumes "update_transaction accId catId srcId ty am descr dt i u d = Some (rows, d2)"
    and "schema_ok d"
  shows "schema_ok d2"
proof -
  have ids: "map tx_id (transactions d2) = map tx_id (transactions d)"
    unfolding update_transaction_step [OF assms(1)] by (simp add: comp_def)
  have "list_all (\<lambda>t. tx_id t < n) (transactions d2)"
    if "list_all (\<lambda>t. tx_id t < n) (transactions d)" for n
    using that unfolding update_transaction_step(1) [OF assms(1)] by (auto simp: list_all_iff)
  with assms(2) ids show ?thesis
    unfolding schema_ok_def by (simp add: update_transaction_step(2-5) [OF assms(1)])
qed

lemma update_transaction_effect:
  assumes "update_transaction accId catId srcId ty am descr dt i u d = Some (rows, d2)"
    and "distinct (map tx_id (transactions d))" and "select_transaction i u d = Some (old # rest)"
  shows "ledger_effect d2 aid =
     ledger_effect d aid - tx_effect_on aid old +
       (if accId = Some aid then (if ty = ''income'' then pg_round 2 am else - pg_round 2 am) else 0)"
proof -
  let ?g = "\<lambda>t. t\<lparr>tx_account_id := accId, tx_category_id := catId,
                    tx_income_source_id := srcId, tx_type := ty, tx_amount := pg_round 2 am,
                    tx_description := descr, tx_date := dt\<rparr>"
  note sel = select_transaction_rows [OF assms(3)]
  note h = filter_key_head [OF distinct_some_int [OF assms(2)] sel]
  have "transactions d2 = map (\<lambda>t. if t = old then ?g t else t) (transactions d)"
    unfolding update_transaction_step(1) [OF assms(1)] using h(4) by (intro map_cong) auto
  moreover have "distinct (transactions d)"
    using assms(2) by (simp add: distinct_map)
  ultimately have "sum_list (map (tx_effect_on aid) (transactions d2)) =
      sum_list (map (tx_effect_on aid) (transactions d)) - tx_effect_on aid old
        + tx_effect_on aid (?g old)"
    using h(1) by (simp only: sum_list_map_replace)
  then show ?thesis
    by (simp add: ledger_effect_def update_transaction_step(3) [OF assms(1)] tx_effect_on_def
        tx_delta_def)
qed

lemma delete_transaction_row_step:
  assumes "delete_transaction_row i u d = Some d'"
  shows "transactions d' =
       filter (\<lambda>t. \<not> (Some (int (tx_id t)) = int4_in i \<and> tx_user_id t = u)) (transactions d)"
    and "accounts d' = accounts d" and "exchange_operations d' = exchange_operations d"
    and "transactions_id_seq d' = transactions_id_seq d"
    and "exchange_operations_id_seq d' = exchange_operations_id_seq d"
  using assms by (auto simp: delete_transaction_row_def split: option.splits)

lemma delete_transaction_row_schema:
  assumes "delete_transaction_row i u d = Some d'" and "schema_ok d"
  shows "schema_ok d'"
  using assms(2) unfolding schema_ok_def delete_transaction_row_step [OF assms(1)]
  by (auto simp: list_all_iff distinct_map_filter)

lemma delete_transaction_row_effect:
  assumes "delete_transaction_row i u d = Some d'"
    and "distinct (map tx_id (transactions d))" and "select_transaction i u d = Some (old # rest)"
  shows "ledger_effect d' aid = ledger_effect d aid - tx_effect_on aid old"
proof -
  note sel = select_transaction_rows [OF assms(3)]
  note h = filter_key_head [OF distinct_some_int [OF assms(2)] sel]
  have "transactions d' = filter (\<lambda>t. t \<noteq> old) (transactions d)"
    unfolding delete_transaction_row_step(1) [OF assms(1)] using h(4) by (intro filter_cong) auto
  moreover have "distinct (transactions d)"
    using assms(2) by (simp add: distinct_map)
  ultimately have "sum_list (map (tx_effect_on aid) (transactions d')) =
      sum_list (map (tx_effect_on aid) (transactions d)) - tx_effect_on aid old"
    using h(1) by (simp only: sum_list_map_remove)
  then show ?thesis
    by (simp add: ledger_effect_def delete_transaction_row_step(3) [OF assms(1)])
qed

subsection \<open>Writing exchange rows\<close>

lemma insert_exchange_step:
  assumes "insert_exchange u b d = Some (row, d1)"
  shows "exchange_operations d1 = exchange_operations d @ [row]" and "accounts d1 = accounts d"
    and "transactions d1 = transactions d"
    and "exchange_operations_id_seq d1 = Suc (exchange_operations_id_seq d)"
    and "transactions_id_seq d1 = transactions_id_seq d"
    and "ex_id row = exchange_operations_id_seq d" and "ex_user_id row = u"
    and "from_account_id row = eb_fromAccountId b" and "to_account_id row = eb_toAccountId b"
    and "from_amount row = pg_round 2 (eb_fromAmount b)"
    and "to_amount row = pg_round 2 (eb_toAmount b)"
  using assms by (auto simp: insert_exchange_def Let_def split: if_splits)

lemma insert_exchange_schema:
  assumes "insert_exchange u b d = Some (row, d1)" and "schema_ok d"
  shows "schema_ok d1"
  using assms(2) insert_exchange_step [OF assms(1)]
  by (auto simp: schema_ok_def list_all_iff less_Suc_eq)

lemma insert_exchange_effect:
  assumes "insert_exchange u b d = Some (row, d1)"
  shows "ledger_effect d1 aid = ledger_effect d aid +
     ((if eb_toAccountId b = Some aid then pg_round 2 (eb_toAmount b) else 0) -
      (if eb_fromAccountId b = Some aid then pg_round 2 (eb_fromAmount b) else 0))"
  unfolding ledger_effect_def insert_exchange_step(1,3) [OF assms]
  by (simp add: ex_effect_on_def insert_exchange_step [OF assms])

lemma update_exchange_step:
  assumes "update_exchange b i u d = Some (rows, d3)"
  shows "exchange_operations d3 =
       map (\<lambda>e. if Some (int (ex_id e)) = int4_in i \<and> ex_user_id e = u
                 then e\<lparr>from_account_id := eb_fromAccountId b,
                        to_account_id := eb_toAccountId b,
                        from_amount := pg_round 2 (eb_fromAmount b),
                        to_amount := pg_round 2 (eb_toAmount b),
                        from_currency := eb_fromCurrency b, to_currency := eb_toCurrency b,
                        exchange_rate := pg_round 6 (eb_exchangeRate b), ex_date := eb_date b\<rparr>
                 else e) (exchange_operations d)"
    and "accounts d3 = accounts d" and "transactions d3 = transactions d"
    and "transactions_id_seq d3 = transactions_id_seq d"
    and "exchange_operations_id_seq d3 = exchange_operations_id_seq d"
  using assms by (auto simp: update_exchange_def Let_def split: if_splits option.splits)

lemma update_exchange_schema:
  assumes "update_exchange b i u d = Some (rows, d3)" and "schema_ok d"
  shows "schema_ok d3"
proof -
  have ids: "map ex_id (exchange_operations d3) = map ex_id (exchange_operations d)"
    unfolding update_exchange_step [OF assms(1)] by (simp add: comp_def)
  have "list_all (\<lambda>e. ex_id e < n) (exchange_operations d3)"
    if "list_all (\<lambda>e. ex_id e < n) (exchange_operations d)" for n
    using that unfolding update_exchange_step(1) [OF assms(1)] by (auto simp: list_all_iff)
  with assms(2) ids show ?thesis
    unfolding schema_ok_def by (simp add: update_exchange_step(2-5) [OF assms(1)])
qed

lemma update_exchange_effect:
  assumes "update_exchange b i u d = Some (rows, d3)"
    and "distinct (map ex_id (exchange_operations d))" and "select_exchange i u d = Some (old # rest)"
  shows "ledger_effect d3 aid =
     ledger_effect d aid - ex_effect_on aid old +
     ((if eb_toAccountId b = Some aid then pg_round 2 (eb_toAmount b) else 0) -
      (if eb_fromAccountId b = Some aid then pg_round 2 (eb_fromAmount b) else 0))"
proof -
  let ?g = "\<lambda>e. e\<lparr>from_account_id := eb_fromAccountId b, to_account_id := eb_toAccountId b,
                    from_amount := pg_round 2 (eb_fromAmount b),
                    to_amount := pg_round 2 (eb_toAmount b),
                    from_currency := eb_fromCurrency b, to_currency := eb_toCurrency b,
                    exchange_rate := pg_round 6 (eb_exchangeRate b), ex_date := eb_date b\<rparr>"
  note sel = select_exchange_rows [OF assms(3)]
  note h = filter_key_head [OF distinct_some_int [OF assms(2)] sel]
  have "exchange_operations d3 = map (\<lambda>e. if e = old then ?g e else e) (exchange_operations d)"
    unfolding update_exchange_step(1) [OF assms(1)] using h(4) by (intro map_cong) auto
  moreover have "distinct (exchange_operations d)"
    using assms(2) by (simp add: distinct_map)
  ultimately have "sum_list (map (ex_effect_on aid) (exchange_operations d3)) =
      sum_list (map (ex_effect_on aid) (exchange_operations d)) - ex_effect_on aid old
        + ex_effect_on aid (?g old)"
    using h(1) by (simp only: sum_list_map_replace)
  then show ?thesis
    by (simp add: ledger_effect_def update_exchange_step(3) [OF assms(1)] ex_effect_on_def)
qed

lemma delete_exchange_row_step:
  assumes "delete_exchange_row i u d = Some d'"
  shows "exchange_operations d' =
       filter (\<lambda>e. \<not> (Some (int (ex_id e)) = int4_in i \<and> ex_user_id e = u))
         (exchange_operations d)"
    and "accounts d' = accounts d" and "transactions d' = transactions d"
    and "transactions_id_seq d' = transactions_id_seq d"
    and "exchange_operations_id_seq d' = exchange_operations_id_seq d"
  using assms by (auto simp: delete_exchange_row_def split: option.splits)

lemma delete_exchange_row_schema:
  assumes "delete_exchange_row i u d = Some d'" and "schema_ok d"
  shows "schema_ok d'"
  using assms(2) unfolding schema_ok_def delete_exchange_row_step [OF assms(1)]
  by (auto simp: list_all_iff distinct_map_filter)

lemma delete_exchange_row_effect:
  assumes "delete_exchange_row i u d = Some d'"
    and "distinct (map ex_id (exchange_operations d))" and "select_exchange i u d = Some (old # rest)"
  shows "ledger_effect d' aid = ledger_effect d aid - ex_effect_on aid old"
proof -
  note sel = select_exchange_rows [OF assms(3)]
  note h = filter_key_head [OF distinct_some_int [OF assms(2)] sel]
  have "exchange_operations d' = filter (\<lambda>e. e \<noteq> old) (exchange_operations d)"
    unfolding delete_exchange_row_step(1) [OF assms(1)] using h(4) by (intro filter_cong) auto
  moreover have "distinct (exchange_operations d)"
    using assms(2) by (simp add: distinct_map)
  ultimately have "sum_list (map (ex_effect_on aid) (exchange_operations d')) =
      sum_list (map (ex_effect_on aid) (exchange_operations d)) - ex_effect_on aid old"
    using h(1) by (simp only: sum_list_map_remove)
  then show ?thesis
    by (simp add: ledger_effect_def delete_exchange_row_step(3) [OF assms(1)])
qed

subsection \<open>Records that do not touch the accounts\<close>

lemma insert_transaction_accounts:
  assumes "insert_transaction u accId catId srcId ty am descr dt d = Some (row, d1)"
  shows "owner_of d1 aid = owner_of d aid" and "balance_of d1 aid = balance_of d aid"
  by (simp_all add: owner_of_def balance_of_def find_account_def insert_transaction_step(2) [OF assms])

lemma update_transaction_accounts:
  assumes "update_transaction accId catId srcId ty am descr dt i u d = Some (rows, d2)"
  shows "owner_of d2 aid = owner_of d aid" and "balance_of d2 aid = balance_of d aid"
  by (simp_all add: owner_of_def balance_of_def find_account_def update_transaction_step(2) [OF assms])

lemma delete_transaction_row_accounts:
  assumes "delete_transaction_row i u d = Some d'"
  shows "owner_of d' aid = owner_of d aid" and "balance_of d' aid = balance_of d aid"
  by (simp_all add: owner_of_def balance_of_def find_account_def delete_transaction_row_step(2) [OF assms])

lemma insert_exchange_accounts:
  assumes "insert_exchange u b d = Some (row, d1)"
  shows "owner_of d1 aid = owner_of d aid" and "balance_of d1 aid = balance_of d aid"
  by (simp_all add: owner_of_def balance_of_def find_account_def insert_exchange_step(2) [OF assms])

lemma update_exchange_accounts:
  assumes "update_exchange b i u d = Some (rows, d3)"
  shows "owner_of d3 aid = owner_of d aid" and "balance_of d3 aid = balance_of d aid"
  by (simp_all add: owner_of_def balance_of_def find_account_def update_exchange_step(2) [OF assms])

lemma delete_exchange_row_accounts:
  assumes "delete_exchange_row i u d = Some d'"
  shows "owner_of d' aid = owner_of d aid" and "balance_of d' aid = balance_of d aid"
  by (simp_all add: owner_of_def balance_of_def find_account_def delete_exchange_row_step(2) [OF assms])

subsection \<open>Each handler keeps the schema and moves balance and ledger together\<close>

lemma in_step_refl: "schema_ok d \<Longrightarrow> owner_of d aid = Some u \<Longrightarrow> in_step u aid d d"
  by (simp add: in_step_def)

lemma reverse_change:
  "(if tx_type old = ''income'' then - decimal (tx_amount old) else decimal (tx_amount old)) =
     decimal (- tx_delta old)"
  by (simp add: tx_delta_def decimal_minus)

lemma post_transaction_step:
  assumes "schema_ok d" and "owner_of d aid = Some u"
    and "post_transaction fails u b d = (resp, d')" and "two_decimals (tb_amount b)"
  shows "in_step u aid d d'"
proof -
  consider "d' = d"
    | row d1 where "insert_transaction u (or_null (tb_accountId b)) (or_null (tb_categoryId b))
         (or_null (tb_incomeSourceId b)) (tb_type b) (tb_amount b) (tb_description b) (tb_date b) d
         = Some (row, d1)"
      and "update_balance (if tb_type b = ''income'' then tb_amount b else - tb_amount b)
         (or_null (tb_accountId b)) u d1 = Some d'"
    using post_transaction_cases [OF assms(3)] by (elim disjE exE conjE) blast+
  then show ?thesis
  proof cases
    case 1
    with assms show ?thesis by (simp add: in_step_refl)
  next
    case 2
    note ins = 2(1) and ub = 2(2)
    have "schema_ok d'"
      using update_balance_schema [OF ub] insert_transaction_schema [OF ins] assms(1) by blast
    moreover have own1: "owner_of d1 aid = Some u"
      using assms(2) by (simp add: insert_transaction_accounts [OF ins])
    then have "owner_of d' aid = Some u"
      by (simp add: update_balance_owner [OF ub])
    moreover have "balance_of d' aid = Some (bal + ledger_effect d' aid - ledger_effect d aid)"
      if "balance_of d aid = Some bal" for bal
    proof -
      from that have "balance_of d1 aid = Some bal"
        by (simp add: insert_transaction_accounts [OF ins])
      from update_balance_balance [OF ub own1 this forward_change(1) [OF assms(4)]]
      show ?thesis
        by (simp add: update_balance_frame(6) [OF ub] insert_transaction_effect [OF ins])
    qed
    ultimately show ?thesis by (simp add: in_step_def)
  qed
qed

lemma put_transaction_step:
  assumes "schema_ok d" and "owner_of d aid = Some u"
    and "put_transaction fails u i b d = (resp, d')" and "two_decimals (tb_amount b)"
  shows "in_step u aid d d'"
proof -
  consider "d' = d"
    | old rest d1 rows d2 where "select_transaction i u d = Some (old # rest)"
      and "update_balance (if tx_type old = ''income'' then - decimal (tx_amount old)
          else decimal (tx_amount old))
         (tx_account_id old) u d = Some d1"
      and "update_transaction (tb_accountId b) (tb_categoryId b) (tb_incomeSourceId b) (tb_type b)
         (tb_amount b) (tb_description b) (tb_date b) i u d1 = Some (rows, d2)"
      and "update_balance (if tb_type b = ''income'' then tb_amount b else - tb_amount b)
         (tb_accountId b) u d2 = Some d'"
    using put_transaction_cases [OF assms(3)] by (elim disjE exE conjE) blast+
  then show ?thesis
  proof cases
    case 1
    with assms show ?thesis by (simp add: in_step_refl)
  next
    case 2
    note sel = 2(1) and ub1 = 2(2) and upd = 2(3) and ub2 = 2(4)
    have s1: "schema_ok d1"
      using update_balance_schema [OF ub1] assms(1) by blast
    then have "schema_ok d'"
      using update_balance_schema [OF ub2] update_transaction_schema [OF upd] by blast
    moreover have own2: "owner_of d2 aid = Some u"
      using assms(2)
      by (simp add: update_transaction_accounts [OF upd] update_balance_owner [OF ub1])
    then have "owner_of d' aid = Some u"
      by (simp add: update_balance_owner [OF ub2])
    moreover have "balance_of d' aid = Some (bal + ledger_effect d' aid - ledger_effect d aid)"
      if "balance_of d aid = Some bal" for bal
    proof -
      have sel1: "select_transaction i u d1 = Some (old # rest)"
        using sel by (simp only: select_transaction_frame [OF update_balance_frame(1) [OF ub1]])
      have dist1: "distinct (map tx_id (transactions d1))"
        using s1 by (simp add: schema_ok_def)
      have ub1': "update_balance (decimal (- tx_delta old)) (tx_account_id old) u d = Some d1"
        using ub1 unfolding reverse_change .
      have "balance_of d2 aid =
          Some (bal + (if tx_account_id old = Some aid \<and> u = u then - tx_delta old else 0))"
        using update_balance_balance [OF ub1' assms(2) that two_decimals_decimal]
        by (simp add: update_transaction_accounts [OF upd])
      from update_balance_balance [OF ub2 own2 this forward_change(1) [OF assms(4)]]
      show ?thesis
        by (simp add: update_balance_frame(6) [OF ub2] update_balance_frame(6) [OF ub1]
            update_transaction_effect [OF upd dist1 sel1] tx_effect_on_def)
    qed
    ultimately show ?thesis by (simp add: in_step_def)
  qed
qed

lemma delete_transaction_step:
  assumes "schema_ok d" and "owner_of d aid = Some u"
    and "delete_transaction fails u i d = (resp, d')"
  shows "in_step u aid d d'"
proof -
  consider "d' = d"
    | old rest d1 where "select_transaction i u d = Some (old # rest)"
      and "update_balance (if tx_type old = ''income'' then - decimal (tx_amount old)
          else decimal (tx_amount old))
         (tx_account_id old) u d = Some d1"
      and "delete_transaction_row i u d1 = Some d'"
    using delete_transaction_cases [OF assms(3)] by (elim disjE exE conjE) blast+
  then show ?thesis
  proof cases
    case 1
    with assms show ?thesis by (simp add: in_step_refl)
  next
    case 2
    note sel = 2(1) and ub1 = 2(2) and del = 2(3)
    have s1: "schema_ok d1"
      using update_balance_schema [OF ub1] assms(1) by blast
    then have "schema_ok d'"
      using delete_transaction_row_schema [OF del] by blast
    moreover have "owner_of d' aid = Some u"
      using assms(2)
      by (simp add: delete_transaction_row_accounts [OF del] update_balance_owner [OF ub1])
    moreover have "balance_of d' aid = Some (bal + ledger_effect d' aid - ledger_effect d aid)"
      if "balance_of d aid = Some bal" for bal
    proof -
      have sel1: "select_transaction i u d1 = Some (old # rest)"
        using sel by (simp only: select_transaction_frame [OF update_balance_frame(1) [OF ub1]])
      have dist1: "distinct (map tx_id (transactions d1))"
        using s1 by (simp add: schema_ok_def)
      have ub1': "update_balance (decimal (- tx_delta old)) (tx_account_id old) u d = Some d1"
        using ub1 unfolding reverse_change .
      show ?thesis
        using update_balance_balance [OF ub1' assms(2) that two_decimals_decimal]
        by (simp add: delete_transaction_row_accounts [OF del]
            update_balance_frame(6) [OF ub1]
            delete_transaction_row_effect [OF del dist1 sel1] tx_effect_on_def)
    qed
    ultimately show ?thesis by (simp add: in_step_def)
  qed
qed

lemma post_exchange_step:
  assumes "schema_ok d" and "owner_of d aid = Some u"
    and "post_exchange fails u b d = (resp, d')"
    and "two_decimals (eb_fromAmount b)" and "two_decimals (eb_toAmount b)"
  shows "in_step u aid d d'"
proof -
  consider "d' = d"
    | row d1 d2 where "insert_exchange u b d = Some (row, d1)"
      and "update_balance (- eb_fromAmount b) (eb_fromAccountId b) u d1 = Some d2"
      and "update_balance (eb_toAmount b) (eb_toAccountId b) u d2 = Some d'"
    using post_exchange_cases [OF assms(3)] by (elim disjE exE conjE) blast+
  then show ?thesis
  proof cases
    case 1
    with assms show ?thesis by (simp add: in_step_refl)
  next
    case 2
    note ins = 2(1) and ub1 = 2(2) and ub2 = 2(3)
    have "schema_ok d'"
      using update_balance_schema [OF ub2] update_balance_schema [OF ub1]
        insert_exchange_schema [OF ins] assms(1) by blast
    moreover have own1: "owner_of d1 aid = Some u"
      using assms(2) by (simp add: insert_exchange_accounts [OF ins])
    then have own2: "owner_of d2 aid = Some u"
      by (simp add: update_balance_owner [OF ub1])
    then have "owner_of d' aid = Some u"
      by (simp add: update_balance_owner [OF ub2])
    moreover have "balance_of d' aid = Some (bal + ledger_effect d' aid - ledger_effect d aid)"
      if "balance_of d aid = Some bal" for bal
    proof -
      from that have "balance_of d1 aid = Some bal"
        by (simp add: insert_exchange_accounts [OF ins])
      from update_balance_balance [OF ub2 own2
          update_balance_balance [OF ub1 own1 this neg_exact [OF assms(4)]] assms(5)]
      show ?thesis
        by (simp add: update_balance_frame(6) [OF ub2] update_balance_frame(6) [OF ub1]
            insert_exchange_effect [OF ins])
    qed
    ultimately show ?thesis by (simp add: in_step_def)
  qed
qed

lemma put_exchange_step:
  assumes "schema_ok d" and "owner_of d aid = Some u"
    and "put_exchange fails u i b d = (resp, d')"
    and "two_decimals (eb_fromAmount b)" and "two_decimals (eb_toAmount b)"
  shows "in_step u aid d d'"
proof -
  consider "d' = d"
    | old rest d1 d2 rows d3 d4 where "select_exchange i u d = Some (old # rest)"
      and "update_balance (decimal (from_amount old)) (from_account_id old) u d = Some d1"
      and "update_balance (- decimal (to_amount old)) (to_account_id old) u d1 = Some d2"
      and "update_exchange b i u d2 = Some (rows, d3)"
      and "update_balance (- eb_fromAmount b) (eb_fromAccountId b) u d3 = Some d4"
      and "update_balance (eb_toAmount b) (eb_toAccountId b) u d4 = Some d'"
    using put_exchange_cases [OF assms(3)] by (elim disjE exE conjE) blast+
  then show ?thesis
  proof cases
    case 1
    with assms show ?thesis by (simp add: in_step_refl)
  next
    case 2
    note sel = 2(1) and ub1 = 2(2) and ub2 = 2(3) and upd = 2(4) and ub3 = 2(5) and ub4 = 2(6)
    have s2: "schema_ok d2"
      using update_balance_schema [OF ub2] update_balance_schema [OF ub1] assms(1) by blast
    then have "schema_ok d'"
      using update_balance_schema [OF ub4] update_balance_schema [OF ub3]
        update_exchange_schema [OF upd] by blast
    moreover have own1: "owner_of d1 aid = Some u"
      using assms(2) by (simp add: update_balance_owner [OF ub1])
    then have own3: "owner_of d3 aid = Some u"
      by (simp add: update_exchange_accounts [OF upd] update_balance_owner [OF ub2])
    then have own4: "owner_of d4 aid = Some u"
      by (simp add: update_balance_owner [OF ub3])
    then have "owner_of d' aid = Some u"
      by (simp add: update_balance_owner [OF ub4])
    moreover have "balance_of d' aid = Some (bal + ledger_effect d' aid - ledger_effect d aid)"
      if "balance_of d aid = Some bal" for bal
    proof -
      have sel2: "select_exchange i u d2 = Some (old # rest)"
        using sel
        by (simp only: select_exchange_frame [OF update_balance_frame(2) [OF ub2]]
            select_exchange_frame [OF update_balance_frame(2) [OF ub1]])
      have dist2: "distinct (map ex_id (exchange_operations d2))"
        using s2 by (simp add: schema_ok_def)
      have "balance_of d3 aid = Some (bal - ex_effect_on aid old)"
        using update_balance_balance [OF ub2 own1
            update_balance_balance [OF ub1 assms(2) that two_decimals_decimal] neg_decimal_exact]
        by (simp add: update_exchange_accounts [OF upd] ex_effect_on_def)
      from update_balance_balance [OF ub4 own4
          update_balance_balance [OF ub3 own3 this neg_exact [OF assms(4)]] assms(5)]
      show ?thesis
        by (simp add: update_balance_frame(6) [OF ub4] update_balance_frame(6) [OF ub3]
            update_balance_frame(6) [OF ub2] update_balance_frame(6) [OF ub1]
            update_exchange_effect [OF upd dist2 sel2])
    qed
    ultimately show ?thesis by (simp add: in_step_def)
  qed
qed

lemma delete_exchange_step:
  assumes "schema_ok d" and "owner_of d aid = Some u"
    and "delete_exchange fails u i d = (resp, d')"
  shows "in_step u aid d d'"
proof -
  consider "d' = d"
    | old rest d1 d2 where "select_exchange i u d = Some (old # rest)"
      and "update_balance (decimal (from_amount old)) (from_account_id old) u d = Some d1"
      and "update_balance (- decimal (to_amount old)) (to_account_id old) u d1 = Some d2"
      and "delete_exchange_row i u d2 = Some d'"
    using delete_exchange_cases [OF assms(3)] by (elim disjE exE conjE) blast+
  then show ?thesis
  proof cases
    case 1
    with assms show ?thesis by (simp add: in_step_refl)
  next
    case 2
    note sel = 2(1) and ub1 = 2(2) and ub2 = 2(3) and del = 2(4)
    have s2: "schema_ok d2"
      using update_balance_schema [OF ub2] update_balance_schema [OF ub1] assms(1) by blast
    then have "schema_ok d'"
      using delete_exchange_row_schema [OF del] by blast
    moreover have own1: "owner_of d1 aid = Some u"
      using assms(2) by (simp add: update_balance_owner [OF ub1])
    then have "owner_of d' aid = Some u"
      by (simp add: delete_exchange_row_accounts [OF del] update_balance_owner [OF ub2])
    moreover have "balance_of d' aid = Some (bal + ledger_effect d' aid - ledger_effect d aid)"
      if "balance_of d aid = Some bal" for bal
    proof -
      have sel2: "select_exchange i u d2 = Some (old # rest)"
        using sel
        by (simp only: select_exchange_frame [OF update_balance_frame(2) [OF ub2]]
            select_exchange_frame [OF update_balance_frame(2) [OF ub1]])
      have dist2: "distinct (map ex_id (exchange_operations d2))"
        using s2 by (simp add: schema_ok_def)
      show ?thesis
        using update_balance_balance [OF ub2 own1
            update_balance_balance [OF ub1 assms(2) that two_decimals_decimal] neg_decimal_exact]
        by (simp add: delete_exchange_row_accounts [OF del] ex_effect_on_def
            update_balance_frame(6) [OF ub2] update_balance_frame(6) [OF ub1]
            delete_exchange_row_effect [OF del dist2 sel2])
    qed
    ultimately show ?thesis by (simp add: in_step_def)
  qed
qed

lemma in_step_trans: "in_step u aid d d1 \<Longrightarrow> in_step u aid d1 d2 \<Longrightarrow> in_step u aid d d2"
  by (auto simp: in_step_def)

lemma handle_step:
  assumes "schema_ok d" and "owner_of d aid = Some u" and "cent_amounts (snd r)"
  shows "in_step u aid d (handle u r d)"
proof (cases r)
  case (Pair fails req)
  note sch = assms(1,2)
  show ?thesis
  proof (cases req)
    case (PostTransaction b)
    with Pair assms show ?thesis
      using post_transaction_step [OF sch surjective_pairing] by simp
  next
    case (PutTransaction i b)
    with Pair assms show ?thesis
      using put_transaction_step [OF sch surjective_pairing] by simp
  next
    case (DeleteTransaction i)
    with Pair assms show ?thesis
      using delete_transaction_step [OF sch surjective_pairing] by simp
  next
    case (PostExchange b)
    with Pair assms show ?thesis
      using post_exchange_step [OF sch surjective_pairing] by simp
  next
    case (PutExchange i b)
    with Pair assms show ?thesis
      using put_exchange_step [OF sch surjective_pairing] by simp
  next
    case (DeleteExchange i)
    with Pair assms show ?thesis
      using delete_exchange_step [OF sch surjective_pairing] by simp
  qed
qed

lemma run_step:
  "schema_ok d \<Longrightarrow> owner_of d aid = Some u \<Longrightarrow> list_all (\<lambda>r. cent_amounts (snd r)) rs \<Longrightarrow>
     in_step u aid d (run u rs d)"
proof (induction rs arbitrary: d)
  case Nil
  then show ?case by (simp add: in_step_refl)
next
  case (Cons r rs)
  have h: "in_step u aid d (handle u r d)"
    using Cons.prems by (intro handle_step) simp_all
  then have "in_step u aid (handle u r d) (run u rs (handle u r d))"
    using Cons.prems(3) by (intro Cons.IH) (simp_all add: in_step_def)
  with h show ?case
    by (simp add: in_step_trans)
qed

lemma put_transaction_faults:
  assumes "put_transaction fails u i b d = (resp, d')"
  shows "(\<exists>s. resp = Failure s) \<or> \<not> (fails 0 \<or> fails 1 \<or> fails 2 \<or> fails 3 \<or> fails 4 \<or> fails 5)"
  using assms unfolding put_transaction_def Let_def
  by (rule yields_settle [rotated 2])
     (auto intro!: yields_bind yields_Some simp: query_Some split: list.split split del: if_split)

lemma delete_transaction_faults:
  assumes "delete_transaction fails u i d = (resp, d')"
  shows "(\<exists>s. resp = Failure s) \<or> \<not> (fails 0 \<or> fails 1 \<or> fails 2 \<or> fails 3 \<or> fails 4)"
  using assms unfolding delete_transaction_def Let_def
  by (rule yields_settle [rotated 2])
     (auto intro!: yields_bind yields_Some simp: query_Some split: list.split split del: if_split)

lemma put_exchange_faults:
  assumes "put_exchange fails u i b d = (resp, d')"
  shows "(\<exists>s. resp = Failure s) \<or> \<not> (fails 0 \<or> fails 1 \<or> fails 2 \<or> fails 3 \<or> fails 4 \<or> fails 5 \<or> fails 6 \<or> fails 7)"
  using assms unfolding put_exchange_def Let_def
  by (rule yields_settle [rotated 2])
     (auto intro!: yields_bind yields_Some simp: query_Some split: list.split split del: if_split)

lemma delete_exchange_faults:
  assumes "delete_exchange fails u i d = (resp, d')"
  shows "(\<exists>s. resp = Failure s) \<or> \<not> (fails 0 \<or> fails 1 \<or> fails 2 \<or> fails 3 \<or> fails 4 \<or> fails 5)"
  using assms unfolding delete_exchange_def Let_def
  by (rule yields_settle [rotated 2])
     (auto intro!: yields_bind yields_Some simp: query_Some split: list.split split del: if_split)

lemma failure_or_ok:
  assumes "\<And>resp d'. h = (resp, d') \<Longrightarrow> (d' = d \<and> (\<exists>s. resp = Failure s)) \<or> (\<exists>x. resp = Ok x)"
    and "\<And>resp d'. h = (resp, d') \<Longrightarrow> (\<exists>s. resp = Failure s) \<or> \<not> faulty"
  shows "(faulty \<longrightarrow> (\<exists>s. fst h = Failure s)) \<and> (\<forall>s. fst h = Failure s \<longrightarrow> snd h = d)"
proof (cases h)
  case (Pair resp d')
  from assms(1) [OF Pair] assms(2) Pair show ?thesis by auto
qed

lemma put_transaction_atomic:
  "(fails 0 \<or> fails 1 \<or> fails 2 \<or> fails 3 \<or> fails 4 \<or> fails 5 \<longrightarrow>
       (\<exists>s. fst (put_transaction fails u i b d) = Failure s)) \<and>
    (\<forall>s. fst (put_transaction fails u i b d) = Failure s \<longrightarrow>
       snd (put_transaction fails u i b d) = d)"
proof (rule failure_or_ok)
  show "(d' = d \<and> (\<exists>s. resp = Failure s)) \<or> (\<exists>x. resp = Ok x)"
    if "put_transaction fails u i b d = (resp, d')" for resp d'
    using put_transaction_cases [OF that] by blast
qed (rule put_transaction_faults)

lemma delete_transaction_atomic:
  "(fails 0 \<or> fails 1 \<or> fails 2 \<or> fails 3 \<or> fails 4 \<longrightarrow>
       (\<exists>s. fst (delete_transaction fails u i d) = Failure s)) \<and>
    (\<forall>s. fst (delete_transaction fails u i d) = Failure s \<longrightarrow>
       snd (delete_transaction fails u i d) = d)"
proof (rule failure_or_ok)
  show "(d' = d \<and> (\<exists>s. resp = Failure s)) \<or> (\<exists>x. resp = Ok x)"
    if "delete_transaction fails u i d = (resp, d')" for resp d'
    using delete_transaction_cases [OF that] by blast
qed (rule delete_transaction_faults)

lemma put_exchange_atomic:
  "(fails 0 \<or> fails 1 \<or> fails 2 \<or> fails 3 \<or> fails 4 \<or> fails 5 \<or> fails 6 \<or> fails 7 \<longrightarrow>
       (\<exists>s. fst (put_exchange fails u i e d) = Failure s)) \<and>
    (\<forall>s. fst (put_exchange fails u i e d) = Failure s \<longrightarrow>
       snd (put_exchange fails u i e d) = d)"
proof (rule failure_or_ok)
  show "(d' = d \<and> (\<exists>s. resp = Failure s)) \<or> (\<exists>x. resp = Ok x)"
    if "put_exchange fails u i e d = (resp, d')" for resp d'
    using put_exchange_cases [OF that] by blast
qed (rule put_exchange_faults)

lemma delete_exchange_atomic:
  "(fails 0 \<or> fails 1 \<or> fails 2 \<or> fails 3 \<or> fails 4 \<or> fails 5 \<longrightarrow>
       (\<exists>s. fst (delete_exchange fails u i d) = Failure s)) \<and>
    (\<forall>s. fst (delete_exchange fails u i d) = Failure s \<longrightarrow>
       snd (delete_exchange fails u i d) = d)"
proof (rule failure_or_ok)
  show "(d' = d \<and> (\<exists>s. resp = Failure s)) \<or> (\<exists>x. resp = Ok x)"
    if "delete_exchange fails u i d = (resp, d')" for resp d'
    using delete_exchange_cases [OF that] by blast
qed (rule delete_exchange_faults)


subsection \<open>Balances after a committed request\<close>

lemma post_transaction_Ok:
  assumes "post_transaction fails u b d = (Ok row, d')"
  obtains d1 where "insert_transaction u (or_null (tb_accountId b)) (or_null (tb_categoryId b))
         (or_null (tb_incomeSourceId b)) (tb_type b) (tb_amount b) (tb_description b) (tb_date b) d
         = Some (row, d1)"
    and "update_balance (if tb_type b = ''income'' then tb_amount b else - tb_amount b)
         (or_null (tb_accountId b)) u d1 = Some d'"
  using post_transaction_cases [OF assms] by (elim disjE exE conjE) auto

lemma put_transaction_Ok:
  assumes "put_transaction fails u i b d = (Ok r, d')"
  obtains old rest d1 rows d2 where "select_transaction i u d = Some (old # rest)"
    and "update_balance (if tx_type old = ''income'' then - decimal (tx_amount old)
          else decimal (tx_amount old))
         (tx_account_id old) u d = Some d1"
    and "update_transaction (tb_accountId b) (tb_categoryId b) (tb_incomeSourceId b) (tb_type b)
         (tb_amount b) (tb_description b) (tb_date b) i u d1 = Some (rows, d2)"
    and "update_balance (if tb_type b = ''income'' then tb_amount b else - tb_amount b)
         (tb_accountId b) u d2 = Some d'"
  using put_transaction_cases [OF assms] by (elim disjE exE conjE) auto

lemma post_exchange_Ok:
  assumes "post_exchange fails u b d = (Ok row, d')"
  obtains d1 d2 where "insert_exchange u b d = Some (row, d1)"
    and "update_balance (- eb_fromAmount b) (eb_fromAccountId b) u d1 = Some d2"
    and "update_balance (eb_toAmount b) (eb_toAccountId b) u d2 = Some d'"
  using post_exchange_cases [OF assms] by (elim disjE exE conjE) auto

lemma delete_exchange_Ok:
  assumes "delete_exchange fails u i d = (Ok r, d')"
  obtains old rest d1 d2 where "select_exchange i u d = Some (old # rest)"
    and "update_balance (decimal (from_amount old)) (from_account_id old) u d = Some d1"
    and "update_balance (- decimal (to_amount old)) (to_account_id old) u d1 = Some d2"
    and "delete_exchange_row i u d2 = Some d'"
  using delete_exchange_cases [OF assms] by (elim disjE exE conjE) auto

lemma post_transaction_row:
  assumes "post_transaction fails u b d = (Ok row, d')"
  shows "transactions d' = transactions d @ [row]" and "tx_id row = transactions_id_seq d"
    and "tx_user_id row = u" and "tx_account_id row = or_null (tb_accountId b)"
    and "tx_type row = tb_type b" and "tx_amount row = pg_round 2 (tb_amount b)"
    and "owner_of d' aid = owner_of d aid"
proof -
  from assms obtain d1 where ins: "insert_transaction u (or_null (tb_accountId b))
         (or_null (tb_categoryId b)) (or_null (tb_incomeSourceId b)) (tb_type b) (tb_amount b)
         (tb_description b) (tb_date b) d = Some (row, d1)"
    and ub: "update_balance (if tb_type b = ''income'' then tb_amount b else - tb_amount b)
         (or_null (tb_accountId b)) u d1 = Some d'"
    by (rule post_transaction_Ok)
  show "transactions d' = transactions d @ [row]"
    by (simp add: update_balance_frame(1) [OF ub] insert_transaction_step(1) [OF ins])
  show "tx_id row = transactions_id_seq d" and "tx_user_id row = u"
    and "tx_account_id row = or_null (tb_accountId b)"
    and "tx_type row = tb_type b" and "tx_amount row = pg_round 2 (tb_amount b)"
    by (simp_all add: insert_transaction_step [OF ins])
  show "owner_of d' aid = owner_of d aid"
    by (simp add: update_balance_owner [OF ub] insert_transaction_accounts [OF ins])
qed

lemma post_transaction_balance:
  assumes "post_transaction fails u b d = (Ok row, d')"
    and "owner_of d aid = Some w" and "balance_of d aid = Some bal"
  shows "balance_of d' aid =
     Some (if tx_account_id row = Some aid \<and> w = u
           then add_decimal bal (if tb_type b = ''income'' then tb_amount b else - tb_amount b)
           else bal)"
proof -
  from assms(1) obtain d1 where ins: "insert_transaction u (or_null (tb_accountId b))
         (or_null (tb_categoryId b)) (or_null (tb_incomeSourceId b)) (tb_type b) (tb_amount b)
         (tb_description b) (tb_date b) d = Some (row, d1)"
    and ub: "update_balance (if tb_type b = ''income'' then tb_amount b else - tb_amount b)
         (or_null (tb_accountId b)) u d1 = Some d'"
    by (rule post_transaction_Ok)
  have "owner_of d1 aid = Some w" and "balance_of d1 aid = Some bal"
    using assms(2,3) by (simp_all add: insert_transaction_accounts [OF ins])
  from update_balance_rounds [OF ub this] show ?thesis
    by (simp add: insert_transaction_step [OF ins])
qed

lemma put_transaction_balance:
  assumes "put_transaction fails u i b d = (Ok r, d')"
    and "select_transaction i u d = Some (old # rest)"
    and "owner_of d aid = Some w" and "balance_of d aid = Some bal"
    and "mid = bal + (if tx_account_id old = Some aid \<and> w = u then - tx_delta old else 0)"
  shows "balance_of d' aid =
     Some (if tb_accountId b = Some aid \<and> w = u
           then add_decimal mid (if tb_type b = ''income'' then tb_amount b else - tb_amount b)
           else mid)"
proof -
  from assms(1) obtain old' rest' d1 rows d2
    where sel: "select_transaction i u d = Some (old' # rest')"
    and ub1: "update_balance (if tx_type old' = ''income'' then - decimal (tx_amount old')
          else decimal (tx_amount old'))
         (tx_account_id old') u d = Some d1"
    and upd: "update_transaction (tb_accountId b) (tb_categoryId b) (tb_incomeSourceId b) (tb_type b)
         (tb_amount b) (tb_description b) (tb_date b) i u d1 = Some (rows, d2)"
    and ub2: "update_balance (if tb_type b = ''income'' then tb_amount b else - tb_amount b)
         (tb_accountId b) u d2 = Some d'"
    by (rule put_transaction_Ok)
  from sel assms(2) have old: "old' = old" by simp
  have own2: "owner_of d2 aid = Some w"
    using assms(3) by (simp add: update_transaction_accounts [OF upd] update_balance_owner [OF ub1])
  have ub1': "update_balance (decimal (- tx_delta old)) (tx_account_id old) u d = Some d1"
    using ub1 unfolding old reverse_change .
  have "balance_of d2 aid = Some mid"
    using update_balance_balance [OF ub1' assms(3,4) two_decimals_decimal]
    by (simp add: update_transaction_accounts [OF upd] assms(5))
  from update_balance_rounds [OF ub2 own2 this] show ?thesis .
qed

lemma post_exchange_row:
  assumes "post_exchange fails u b d = (Ok row, d')"
  shows "exchange_operations d' = exchange_operations d @ [row]"
    and "ex_id row = exchange_operations_id_seq d" and "ex_user_id row = u"
    and "from_account_id row = eb_fromAccountId b" and "to_account_id row = eb_toAccountId b"
    and "from_amount row = pg_round 2 (eb_fromAmount b)"
    and "to_amount row = pg_round 2 (eb_toAmount b)"
    and "owner_of d' aid = owner_of d aid"
proof -
  from assms obtain d1 d2 where ins: "insert_exchange u b d = Some (row, d1)"
    and ub1: "update_balance (- eb_fromAmount b) (eb_fromAccountId b) u d1 = Some d2"
    and ub2: "update_balance (eb_toAmount b) (eb_toAccountId b) u d2 = Some d'"
    by (rule post_exchange_Ok)
  show "exchange_operations d' = exchange_operations d @ [row]"
    by (simp add: update_balance_frame(2) [OF ub2] update_balance_frame(2) [OF ub1]
        insert_exchange_step(1) [OF ins])
  show "ex_id row = exchange_operations_id_seq d" and "ex_user_id row = u"
    and "from_account_id row = eb_fromAccountId b" and "to_account_id row = eb_toAccountId b"
    and "from_amount row = pg_round 2 (eb_fromAmount b)"
    and "to_amount row = pg_round 2 (eb_toAmount b)"
    by (simp_all add: insert_exchange_step [OF ins])
  show "owner_of d' aid = owner_of d aid"
    by (simp add: update_balance_owner [OF ub2] update_balance_owner [OF ub1]
        insert_exchange_accounts [OF ins])
qed

lemma post_exchange_balance:
  assumes "post_exchange fails u b d = (Ok row, d')"
    and "owner_of d aid = Some w" and "balance_of d aid = Some bal"
    and "mid = (if eb_fromAccountId b = Some aid \<and> w = u
                then add_decimal bal (- eb_fromAmount b) else bal)"
  shows "balance_of d' aid =
     Some (if eb_toAccountId b = Some aid \<and> w = u then add_decimal mid (eb_toAmount b) else mid)"
proof -
  from assms(1) obtain d1 d2 where ins: "insert_exchange u b d = Some (row, d1)"
    and ub1: "update_balance (- eb_fromAmount b) (eb_fromAccountId b) u d1 = Some d2"
    and ub2: "update_balance (eb_toAmount b) (eb_toAccountId b) u d2 = Some d'"
    by (rule post_exchange_Ok)
  have own1: "owner_of d1 aid = Some w" and bal1: "balance_of d1 aid = Some bal"
    using assms(2,3) by (simp_all add: insert_exchange_accounts [OF ins])
  have own2: "owner_of d2 aid = Some w"
    using own1 by (simp add: update_balance_owner [OF ub1])
  have "balance_of d2 aid = Some mid"
    using update_balance_rounds [OF ub1 own1 bal1] by (simp add: assms(4))
  from update_balance_rounds [OF ub2 own2 this] show ?thesis .
qed

lemma delete_exchange_balance:
  assumes "delete_exchange fails u i d = (Ok r, d')"
    and "select_exchange i u d = Some (old # rest)"
    and "owner_of d aid = Some w" and "balance_of d aid = Some bal"
  shows "balance_of d' aid =
     Some (bal + (if from_account_id old = Some aid \<and> w = u then from_amount old else 0)
               + (if to_account_id old = Some aid \<and> w = u then - to_amount old else 0))"
proof -
  from assms(1) obtain old' rest' d1 d2 where sel: "select_exchange i u d = Some (old' # rest')"
    and ub1: "update_balance (decimal (from_amount old')) (from_account_id old') u d = Some d1"
    and ub2: "update_balance (- decimal (to_amount old')) (to_account_id old') u d1 = Some d2"
    and del: "delete_exchange_row i u d2 = Some d'"
    by (rule delete_exchange_Ok)
  from sel assms(2) have old: "old' = old" by simp
  have own1: "owner_of d1 aid = Some w"
    using assms(3) by (simp add: update_balance_owner [OF ub1])
  from update_balance_balance [OF ub2 own1
      update_balance_balance [OF ub1 assms(3,4) two_decimals_decimal] neg_decimal_exact]
  show ?thesis
    by (simp add: delete_exchange_row_accounts [OF del] old)
qed

subsection \<open>A row just inserted is the one its id selects\<close>

lemma select_fresh_transaction:
  assumes "schema_ok d" and "post_transaction fails u b d = (Ok row, d')"
    and "int4_in i = Some (int (tx_id row))"
  shows "select_transaction i u d' = Some [row]"
proof -
  note r = post_transaction_row [OF assms(2)]
  from assms(1) have "\<forall>t\<in>set (transactions d). tx_id t \<noteq> tx_id row"
    by (auto simp: schema_ok_def list_all_iff r(2))
  then have "filter (\<lambda>t. int (tx_id t) = int (tx_id row) \<and> tx_user_id t = u) (transactions d) = []"
    by (auto simp: filter_empty_conv)
  then show ?thesis
    by (simp add: select_transaction_def assms(3) r(1) r(3))
qed

lemma select_fresh_exchange:
  assumes "schema_ok d" and "post_exchange fails u b d = (Ok row, d')"
    and "int4_in i = Some (int (ex_id row))"
  shows "select_exchange i u d' = Some [row]"
proof -
  note r = post_exchange_row [OF assms(2)]
  from assms(1) have "\<forall>e\<in>set (exchange_operations d). ex_id e \<noteq> ex_id row"
    by (auto simp: schema_ok_def list_all_iff r(2))
  then have "filter (\<lambda>e. int (ex_id e) = int (ex_id row) \<and> ex_user_id e = u)
      (exchange_operations d) = []"
    by (auto simp: filter_empty_conv)
  then show ?thesis
    by (simp add: select_exchange_def assms(3) r(1) r(3))
qed

subsection \<open>Rows that no record or account matches\<close>

lemma update_balance_no_match:
  assumes "\<forall>a\<in>set (accounts d). \<not> account_matches accId u a"
  shows "update_balance c accId u d = Some d"
proof -
  have "map (\<lambda>a. if account_matches accId u a
                  then a\<lparr>acc_balance := add_decimal (acc_balance a) c\<rparr> else a)
      (accounts d) = accounts d"
    using assms by (intro map_idI) simp
  with assms show ?thesis
    by (simp add: update_balance_def list_all_iff)
qed

lemma find_account_unique:
  "distinct (map acc_id xs) \<Longrightarrow> a \<in> set xs \<Longrightarrow> find (\<lambda>x. acc_id x = acc_id a) xs = Some a"
  by (induction xs) force+

lemma update_balance_succeeds:
  assumes "schema_ok d" and "owner_of d aid = Some w" and "balance_of d aid = Some bal"
    and "w = u \<longrightarrow> fits_decimal_15_2 (add_decimal bal c)"
  shows "\<exists>d'. update_balance c (Some aid) u d = Some d'"
proof -
  from assms(2,3) obtain a0 where a0: "find_account d aid = Some a0" "acc_user_id a0 = w"
    "acc_balance a0 = bal"
    by (auto simp: owner_of_def balance_of_def)
  have "fits_decimal_15_2 (add_decimal (acc_balance a) c)"
    if "a \<in> set (accounts d)" and "account_matches (Some aid) u a" for a
  proof -
    from that(2) have "acc_id a = aid" and "acc_user_id a = u"
      by (simp_all add: account_matches_def)
    moreover from assms(1) that(1) have "find_account d (acc_id a) = Some a"
      unfolding find_account_def schema_ok_def by (intro find_account_unique) simp_all
    ultimately have "a = a0" using a0(1) by simp
    with a0 \<open>acc_user_id a = u\<close> assms(4) show ?thesis by simp
  qed
  then show ?thesis
    by (simp add: update_balance_def list_all_iff)
qed

lemma balance_fits:
  assumes "schema_ok d" and "balance_of d aid = Some bal"
  shows "fits_decimal_15_2 bal"
proof -
  from assms(2) obtain a where "find_account d aid = Some a" "acc_balance a = bal"
    by (auto simp: balance_of_def)
  with assms(1) show ?thesis
    by (auto simp: schema_ok_def list_all_iff dest: find_account_id)
qed

subsection \<open>An exchange and its deletion on the whole state\<close>

lemma insert_exchange_state:
  "insert_exchange u b d = Some (row, d1) \<Longrightarrow>
     d1 = d\<lparr>exchange_operations := exchange_operations d @ [row],
            exchange_operations_id_seq := Suc (exchange_operations_id_seq d)\<rparr>"
  by (auto simp: insert_exchange_def Let_def split: if_splits)

lemma delete_exchange_row_state:
  "delete_exchange_row i u d = Some d' \<Longrightarrow>
     d' = d\<lparr>exchange_operations :=
              filter (\<lambda>e. \<not> (Some (int (ex_id e)) = int4_in i \<and> ex_user_id e = u))
                (exchange_operations d)\<rparr>"
  by (auto simp: delete_exchange_row_def split: option.splits)

lemma set_balance_round_trip:
  "A \<noteq> B \<Longrightarrow>
     set_balance (Some B) u (- decimal y) (set_balance (Some A) u (decimal x)
       (set_balance (Some B) u (decimal y) (set_balance (Some A) u (- decimal x) a))) = a"
  by (auto simp: set_balance_def account_matches_def)

lemma exchange_then_delete_state:
  assumes "schema_ok d" and "A \<noteq> B"
    and "eb_fromAccountId b = Some A" and "eb_toAccountId b = Some B"
    and "eb_fromAmount b = decimal x" and "eb_toAmount b = decimal y"
    and "post_exchange fails u b d = (Ok row, d1)"
    and "int4_in i = Some (int (ex_id row))"
    and "delete_exchange fails' u i d1 = (Ok r, d2)"
  shows "d2 = d\<lparr>exchange_operations_id_seq := Suc (exchange_operations_id_seq d)\<rparr>"
proof -
  from assms(7) obtain e1 e2 where ins: "insert_exchange u b d = Some (row, e1)"
    and ub1: "update_balance (- eb_fromAmount b) (eb_fromAccountId b) u e1 = Some e2"
    and ub2: "update_balance (eb_toAmount b) (eb_toAccountId b) u e2 = Some d1"
    by (rule post_exchange_Ok)
  note row = post_exchange_row [OF assms(7)]
  have sel: "select_exchange i u d1 = Some [row]"
    using assms(1,7,8) by (rule select_fresh_exchange)
  from assms(9) obtain old rest f1 f2 where sel': "select_exchange i u d1 = Some (old # rest)"
    and ub3: "update_balance (decimal (from_amount old)) (from_account_id old) u d1 = Some f1"
    and ub4: "update_balance (- decimal (to_amount old)) (to_account_id old) u f1 = Some f2"
    and del: "delete_exchange_row i u f2 = Some d2"
    by (rule delete_exchange_Ok)
  from sel sel' have old: "old = row" by simp
  have kept: "filter (\<lambda>e. \<not> (Some (int (ex_id e)) = int4_in i \<and> ex_user_id e = u))
      (exchange_operations d @ [row]) = exchange_operations d"
  proof -
    from assms(1) have "\<forall>e\<in>set (exchange_operations d). ex_id e \<noteq> ex_id row"
      by (auto simp: schema_ok_def list_all_iff row(2))
    then have "filter (\<lambda>e. \<not> (int (ex_id e) = int (ex_id row) \<and> ex_user_id e = u))
        (exchange_operations d) = exchange_operations d"
      by (auto simp: filter_id_conv)
    then show ?thesis
      by (simp add: assms(8) row(3))
  qed
  have undone: "map (set_balance (Some B) u (- decimal y)) (map (set_balance (Some A) u (decimal x))
      (map (set_balance (Some B) u (decimal y)) (map (set_balance (Some A) u (- decimal x))
        (accounts d)))) = accounts d"
    by (simp add: comp_def set_balance_round_trip [OF assms(2)])
  note states = delete_exchange_row_state [OF del] update_balance_state [OF ub4]
    update_balance_state [OF ub3] update_balance_state [OF ub2] update_balance_state [OF ub1]
    insert_exchange_state [OF ins]
  have acc: "accounts d2 = accounts d"
    unfolding states using undone by (simp add: old row assms(3-6))
  have ex: "exchange_operations d2 = exchange_operations d"
    unfolding states using kept by simp
  have "d2 = d\<lparr>accounts := accounts d2, exchange_operations := exchange_operations d2,
      exchange_operations_id_seq := Suc (exchange_operations_id_seq d)\<rparr>"
    unfolding states by simp
  then show ?thesis
    by (simp add: acc ex)
qed

section \<open>Dashboard buckets\<close>

lemma toFixed_zero: "toFixed 2 (Finite 0) = ''0.00''"
  by code_simp

lemma get_dashboard_buckets:
  assumes "get_dashboard fails now u d = Ok metrics"
  shows "\<exists>M E byCurrency.
    metrics = map (\<lambda>(currency, m). (currency, add_emergency_fund E currency m))
       (map (\<lambda>(currency, data). (currency, currency_metric M currency data)) byCurrency)"
proof -
  from assms obtain r where
    "do {
        accountsResult \<leftarrow> query fails 0 (Some (select_account_totals u d));
        investmentsResult \<leftarrow> query fails 1 (Some (select_valued_totals u (investments d)));
        assetsResult \<leftarrow> query fails 2 (Some (select_valued_totals u (assets d)));
        liabilitiesResult \<leftarrow> query fails 3 (Some (select_valued_totals u (liabilities d)));
        monthlyTransactions \<leftarrow> query fails 4
           (Some (select_monthly_totals u (fst now) (snd now) d));
        let monthlyByCurrency = foldl add_monthly_row [] monthlyTransactions;
        let monthlyByCurrency =
              ensure monthlyByCurrency ''BRL'' \<lparr>income = Finite 0, expenses = Finite 0\<rparr>;
        let monthlyByCurrency =
              ensure monthlyByCurrency ''EUR'' \<lparr>income = Finite 0, expenses = Finite 0\<rparr>;
        let byCurrency = foldl add_assets [] accountsResult;
        let byCurrency = foldl add_assets byCurrency investmentsResult;
        let byCurrency = foldl add_assets byCurrency assetsResult;
        let byCurrency = foldl add_liabilities byCurrency liabilitiesResult;
        let byCurrency =
              (if length byCurrency = 0
               then assign byCurrency ''BRL'' \<lparr>assets_total = Finite 0, liabilities_total = Finite 0\<rparr>
               else byCurrency);
        let metrics = map (\<lambda>(currency, data). (currency, currency_metric monthlyByCurrency currency data))
                        byCurrency;
        emergencyFundResult \<leftarrow> query fails 5 (Some (select_emergency_totals u d));
        let emergencyFundByCurrency =
              foldl (\<lambda>obj r. assign obj (fst r) (parseFloat (snd r))) [] emergencyFundResult;
        Some (map (\<lambda>(currency, m). (currency, add_emergency_fund emergencyFundByCurrency currency m))
                metrics)
      } = Some metrics"
    unfolding get_dashboard_def by (simp split: option.splits)
  then show ?thesis
    unfolding Let_def bind_eq_Some_conv query_Some by blast
qed

lemma bucket_guards:
  fixes m :: dashboard_metric
  assumes "m = add_emergency_fund E currency (currency_metric M currency data)"
  shows "totalAssets m = Finite 0 \<longrightarrow> debtRatio m = Finite 0"
    and "monthly_income m = Finite 0 \<longrightarrow> monthly_savingsRate m = ''0.00''"
    and "monthly_expenses m = Finite 0 \<longrightarrow> emergencyFundMonths m = ''0.0''"
  unfolding assms
  by (simp_all add: add_emergency_fund_def currency_metric_def Let_def toFixed_zero)


section \<open>Evaluating the handlers on the sample state\<close>

lemma floor_rat_numeral:
  "\<lfloor>numeral a / numeral b :: rat\<rfloor> = numeral a div numeral b"
  "\<lfloor>- (numeral a / numeral b) :: rat\<rfloor> = - numeral a div numeral b"
  "\<lfloor>1 / numeral b :: rat\<rfloor> = 1 div numeral b"
  "\<lfloor>- (1 / numeral b) :: rat\<rfloor> = - 1 div numeral b"
proof -
  have "\<lfloor>rat_of_int k / rat_of_int l\<rfloor> = k div l" for k l
    by (rule floor_divide_of_int_eq)
  from this [of "numeral a" "numeral b"] this [of "- numeral a" "numeral b"]
    this [of 1 "numeral b"] this [of "- 1" "numeral b"]
  show "\<lfloor>numeral a / numeral b :: rat\<rfloor> = numeral a div numeral b"
    and "\<lfloor>- (numeral a / numeral b) :: rat\<rfloor> = - numeral a div numeral b"
    and "\<lfloor>1 / numeral b :: rat\<rfloor> = 1 div numeral b"
    and "\<lfloor>- (1 / numeral b) :: rat\<rfloor> = - 1 div numeral b"
    by simp_all
qed

lemmas store_defs = query_def no_faults_def settle_def or_null_def first_row_def references_def
  account_matches_def update_balance_def add_decimal_def decimal_def pg_round_def
  fits_decimal_15_2_def transaction_columns_ok_def select_transaction_def insert_transaction_def
  update_transaction_def delete_transaction_row_def exchange_columns_ok_def select_exchange_def
  insert_exchange_def update_exchange_def delete_exchange_row_def
  post_transaction_def put_transaction_def delete_transaction_def
  post_exchange_def put_exchange_def delete_exchange_def
  find_account_def balance_of_def owner_of_def tx_delta_def tx_effect_on_def ex_effect_on_def
  ledger_effect_def schema_ok_def two_decimals_def Let_def floor_rat_numeral

lemmas sample_defs = demo_db_def demo_body_def rehome_body_def foreign_body_def demo_income_def
  demo_exchange_def demo_requests_def expense_on_1_def half_cent_expense_def half_cent_move_def
  half_cent_exchange_def same_account_exchange_def

lemma sample_ids:
  "int4_in ''1'' = Some 1" "int4_in ''2'' = Some 2" "int4_in ''5'' = Some 5"
  "int4_in ''7'' = Some 7" "int4_in ''abc'' = None" "int4_in ''99999999999'' = None"
  by code_simp+

section \<open>Claims\<close>

text \<open>
  Claim C1. An update or delete of a transaction or of an exchange is all or nothing: when the
  store fails at any query of the handler, the response is a failure, and whenever the response
  is a failure (a store fault, an id that the store cannot read, a constraint that refuses the
  write after the old balance was reversed, or a missing record) the stored state is exactly
  the state before the request.
\<close>

theorem update_delete_all_or_nothing:
  "((fails 0 \<or> fails 1 \<or> fails 2 \<or> fails 3 \<or> fails 4 \<or> fails 5 \<longrightarrow>
       (\<exists>s. fst (put_transaction fails u i b d) = Failure s)) \<and>
    (\<forall>s. fst (put_transaction fails u i b d) = Failure s \<longrightarrow>
       snd (put_transaction fails u i b d) = d)) \<and>
   ((fails 0 \<or> fails 1 \<or> fails 2 \<or> fails 3 \<or> fails 4 \<longrightarrow>
       (\<exists>s. fst (delete_transaction fails u i d) = Failure s)) \<and>
    (\<forall>s. fst (delete_transaction fails u i d) = Failure s \<longrightarrow>
       snd (delete_transaction fails u i d) = d)) \<and>
   ((fails 0 \<or> fails 1 \<or> fails 2 \<or> fails 3 \<or> fails 4 \<or> fails 5 \<or> fails 6 \<or> fails 7 \<longrightarrow>
       (\<exists>s. fst (put_exchange fails u i e d) = Failure s)) \<and>
    (\<forall>s. fst (put_exchange fails u i e d) = Failure s \<longrightarrow>
       snd (put_exchange fails u i e d) = d)) \<and>
   ((fails 0 \<or> fails 1 \<or> fails 2 \<or> fails 3 \<or> fails 4 \<or> fails 5 \<longrightarrow>
       (\<exists>s. fst (delete_exchange fails u i d) = Failure s)) \<and>
    (\<forall>s. fst (delete_exchange fails u i d) = Failure s \<longrightarrow>
       snd (delete_exchange fails u i d) = d))"
  by (rule conjI [OF put_transaction_atomic conjI [OF delete_transaction_atomic
        conjI [OF put_exchange_atomic delete_exchange_atomic]]])

theorem update_delete_all_or_nothing_witness:
  "update_balance (decimal 10000) (Some 1) 1 demo_db \<noteq> None \<and>
   fst (put_transaction no_faults 1 ''1'' rehome_body demo_db) = Failure 500 \<and>
   snd (put_transaction no_faults 1 ''1'' rehome_body demo_db) = demo_db \<and>
   fst (delete_transaction (\<lambda>k. k = 3) 1 ''1'' demo_db) = Failure 500 \<and>
   snd (delete_transaction (\<lambda>k. k = 3) 1 ''1'' demo_db) = demo_db"
proof -
  have a: "update_balance (decimal 10000) (Some 1) 1 demo_db \<noteq> None"
    by (simp add: store_defs sample_defs sample_ids)
  have b: "fst (put_transaction no_faults 1 ''1'' rehome_body demo_db) = Failure 500"
    by (simp add: store_defs sample_defs sample_ids)
  have c: "fst (delete_transaction (\<lambda>k. k = 3) 1 ''1'' demo_db) = Failure 500"
    by (simp add: store_defs sample_defs sample_ids)
  from update_delete_all_or_nothing [of no_faults 1 "''1''" rehome_body demo_db] b
  have "snd (put_transaction no_faults 1 ''1'' rehome_body demo_db) = demo_db"
    by blast
  moreover from update_delete_all_or_nothing [of "\<lambda>k. k = 3" 1 "''1''" rehome_body demo_db] c
  have "snd (delete_transaction (\<lambda>k. k = 3) 1 ''1'' demo_db) = demo_db"
    by blast
  ultimately show ?thesis
    using a b c by blast
qed

text \<open>
  Claim C2 as stated fails. In the sample state the balance of account 1 is its initial
  balance 600.00 plus its ledger effect. Its owner creates an expense of 0.005 on it: the
  request succeeds and the row is stored with the amount 0.01, but the balance, 500.00 - 0.005
  rounded to two decimals, stays 500.00, while the initial balance plus the ledger effect is
  now 499.99.
\<close>

theorem balance_tracks_ledger_counterexample:
  "schema_ok demo_db \<and> owner_of demo_db 1 = Some 1 \<and>
   balance_of demo_db 1 = Some (60000 + ledger_effect demo_db 1) \<and>
   fst (post_transaction no_faults 1 half_cent_expense demo_db) =
     Ok \<lparr>tx_id = 2, tx_user_id = 1, tx_account_id = Some 1, tx_category_id = Some 1,
         tx_income_source_id = None, tx_type = ''expense'', tx_amount = 1,
         tx_description = ''rent'', tx_date = (2026, 2, 1)\<rparr> \<and>
   balance_of (run 1 [(no_faults, PostTransaction half_cent_expense)] demo_db) 1 = Some 50000 \<and>
   ledger_effect (run 1 [(no_faults, PostTransaction half_cent_expense)] demo_db) 1 = - 10001 \<and>
   balance_of (run 1 [(no_faults, PostTransaction half_cent_expense)] demo_db) 1 \<noteq>
     Some (60000 + ledger_effect (run 1 [(no_faults, PostTransaction half_cent_expense)] demo_db) 1)"
  by (simp add: store_defs sample_defs sample_ids)

text \<open>
  Claim C2, amended. Take an account and its owner, and any stored state that satisfies the
  schema in which the balance of the account is its initial balance plus the ledger effect
  (the sum of the signed deltas of all stored transactions and exchange legs that reference
  the account). After every finite sequence of transaction and exchange creates, updates and
  deletes issued by the owner whose amounts have at most two decimals, whether they commit or
  fail, the balance is again the initial balance plus the ledger effect.
\<close>

theorem balance_tracks_ledger:
  assumes "schema_ok d" and "owner_of d aid = Some u"
    and "balance_of d aid = Some (initial + ledger_effect d aid)"
    and "list_all (\<lambda>r. cent_amounts (snd r)) rs"
  shows "balance_of (run u rs d) aid = Some (initial + ledger_effect (run u rs d) aid)"
  using run_step [OF assms(1,2,4)] assms(3) by (simp add: in_step_def)

theorem balance_tracks_ledger_witness:
  "schema_ok demo_db \<and> owner_of demo_db 1 = Some 1 \<and>
   balance_of demo_db 1 = Some (60000 + ledger_effect demo_db 1) \<and>
   list_all (\<lambda>r. cent_amounts (snd r)) demo_requests \<and>
   ledger_effect (run 1 demo_requests demo_db) 1 = 25000 \<and>
   balance_of (run 1 demo_requests demo_db) 1 = Some (60000 + 25000)"
proof -
  have a: "schema_ok demo_db"
    and b: "owner_of demo_db 1 = Some 1"
    and c: "balance_of demo_db 1 = Some (60000 + ledger_effect demo_db 1)"
    and r: "list_all (\<lambda>r. cent_amounts (snd r)) demo_requests"
    by (simp add: store_defs sample_defs)+
  have e: "ledger_effect (run 1 demo_requests demo_db) 1 = 25000"
    by (simp add: store_defs sample_defs sample_ids)
  from balance_tracks_ledger [OF a b c r] a b c r e show ?thesis
    by simp
qed

text \<open>
  Claim C3 as stated fails, in three ways. User 1 creates an expense of 100.00 on account 3,
  which user 2 owns: the request succeeds and the balance of account 3 stays 700.00. User 1
  creates an expense of 0.005 on the own account 1: the request succeeds, the amount is stored
  as 0.01 and the balance stays 500.00. User 1 creates an exchange of 100.00 to 20.00 from
  account 1 to account 1: the balance moves from 500.00 to 420.00, neither by -100.00 nor by
  +20.00.
\<close>

theorem create_changes_referenced_balance_counterexample:
  "fst (post_transaction no_faults 1 foreign_body demo_db) =
     Ok \<lparr>tx_id = 2, tx_user_id = 1, tx_account_id = Some 3, tx_category_id = Some 1,
         tx_income_source_id = None, tx_type = ''expense'', tx_amount = 10000,
         tx_description = ''rent'', tx_date = (2026, 2, 1)\<rparr> \<and>
   balance_of demo_db 3 = Some 70000 \<and>
   balance_of (snd (post_transaction no_faults 1 foreign_body demo_db)) 3 \<noteq> Some (70000 - 10000) \<and>
   fst (post_transaction no_faults 1 half_cent_expense demo_db) =
     Ok \<lparr>tx_id = 2, tx_user_id = 1, tx_account_id = Some 1, tx_category_id = Some 1,
         tx_income_source_id = None, tx_type = ''expense'', tx_amount = 1,
         tx_description = ''rent'', tx_date = (2026, 2, 1)\<rparr> \<and>
   owner_of demo_db 1 = Some 1 \<and> balance_of demo_db 1 = Some 50000 \<and>
   balance_of (snd (post_transaction no_faults 1 half_cent_expense demo_db)) 1 = Some 50000 \<and>
   fst (post_exchange no_faults 1 same_account_exchange demo_db) =
     Ok \<lparr>ex_id = 1, ex_user_id = 1, from_account_id = Some 1, to_account_id = Some 1,
         from_amount = 10000, to_amount = 2000, from_currency = ''BRL'', to_currency = ''EUR'',
         exchange_rate = 200000, ex_date = (2026, 2, 7)\<rparr> \<and>
   balance_of (snd (post_exchange no_faults 1 same_account_exchange demo_db)) 1 = Some 42000 \<and>
   balance_of (snd (post_exchange no_faults 1 same_account_exchange demo_db)) 1
     \<noteq> Some (50000 - 10000) \<and>
   balance_of (snd (post_exchange no_faults 1 same_account_exchange demo_db)) 1
     \<noteq> Some (50000 + 2000)"
  by (simp add: store_defs sample_defs sample_ids)

text \<open>
  Claim C3, amended. For a successfully created transaction whose account is owned by the
  requester and whose amount has at most two decimals, the balance of that account changes by
  exactly \<open>+amount\<close> for type income and by exactly \<open>-amount\<close> for type expense. For a
  successfully created exchange, each leg on its own: when the source account is owned by the
  requester, is not also the target, and \<open>fromAmount\<close> has at most two decimals, its balance
  changes by exactly \<open>-fromAmount\<close>; when the target account is owned by the requester, is not
  also the source, and \<open>toAmount\<close> has at most two decimals, its balance changes by exactly
  \<open>+toAmount\<close>. Amounts and balances are counted in hundredths.
\<close>

theorem create_moves_owned_balance:
  "(post_transaction fails u b d = (Ok row, d') \<and> tx_account_id row = Some aid \<and>
    owner_of d aid = Some u \<and> balance_of d aid = Some bal \<and> tb_amount b = decimal c \<longrightarrow>
      (tb_type b = ''income'' \<longrightarrow> balance_of d' aid = Some (bal + c)) \<and>
      (tb_type b = ''expense'' \<longrightarrow> balance_of d' aid = Some (bal - c))) \<and>
   (post_exchange fails u e d = (Ok erow, d'') \<and>
    eb_fromAccountId e = Some fa \<and> eb_toAccountId e \<noteq> Some fa \<and>
    owner_of d fa = Some u \<and> balance_of d fa = Some bf \<and> eb_fromAmount e = decimal x \<longrightarrow>
      balance_of d'' fa = Some (bf - x)) \<and>
   (post_exchange fails u e d = (Ok erow, d'') \<and>
    eb_toAccountId e = Some ta \<and> eb_fromAccountId e \<noteq> Some ta \<and>
    owner_of d ta = Some u \<and> balance_of d ta = Some bt \<and> eb_toAmount e = decimal y \<longrightarrow>
      balance_of d'' ta = Some (bt + y))"
proof (intro conjI impI; elim conjE)
  assume p: "post_transaction fails u b d = (Ok row, d')" and r: "tx_account_id row = Some aid"
    and o: "owner_of d aid = Some u" and bl: "balance_of d aid = Some bal"
    and am: "tb_amount b = decimal c"
  note bal' = post_transaction_balance [OF p o bl]
  show "balance_of d' aid = Some (bal + c)" if "tb_type b = ''income''"
    using bal' that by (simp add: r am)
  show "balance_of d' aid = Some (bal - c)" if "tb_type b = ''expense''"
    using bal' that by (simp add: r am)
next
  assume p: "post_exchange fails u e d = (Ok erow, d'')"
    and f: "eb_fromAccountId e = Some fa" and t: "eb_toAccountId e \<noteq> Some fa"
    and o: "owner_of d fa = Some u" and bl: "balance_of d fa = Some bf"
    and am: "eb_fromAmount e = decimal x"
  from post_exchange_balance [OF p o bl refl] show "balance_of d'' fa = Some (bf - x)"
    by (simp add: f t am)
next
  assume p: "post_exchange fails u e d = (Ok erow, d'')"
    and t: "eb_toAccountId e = Some ta" and f: "eb_fromAccountId e \<noteq> Some ta"
    and o: "owner_of d ta = Some u" and bl: "balance_of d ta = Some bt"
    and am: "eb_toAmount e = decimal y"
  from post_exchange_balance [OF p o bl refl] show "balance_of d'' ta = Some (bt + y)"
    by (simp add: f t am)
qed

theorem create_moves_owned_balance_witness:
  "balance_of demo_db 1 = Some 50000 \<and> balance_of demo_db 2 = Some 10000 \<and>
   balance_of (snd (post_transaction no_faults 1 demo_income demo_db)) 1 = Some (50000 + 25000) \<and>
   balance_of (snd (post_exchange no_faults 1 demo_exchange demo_db)) 1 = Some (50000 - 10000) \<and>
   balance_of (snd (post_exchange no_faults 1 demo_exchange demo_db)) 2 = Some (10000 + 2000)"
proof -
  let ?row = "\<lparr>tx_id = 2, tx_user_id = 1, tx_account_id = Some 1, tx_category_id = Some 2,
         tx_income_source_id = Some 1, tx_type = ''income'', tx_amount = 25000,
         tx_description = ''salary'', tx_date = (2026, 2, 5)\<rparr>"
  let ?erow = "\<lparr>ex_id = 1, ex_user_id = 1, from_account_id = Some 1, to_account_id = Some 2,
         from_amount = 10000, to_amount = 2000, from_currency = ''BRL'', to_currency = ''EUR'',
         exchange_rate = 200000, ex_date = (2026, 2, 7)\<rparr>"
  have p: "post_transaction no_faults 1 demo_income demo_db =
      (Ok ?row, snd (post_transaction no_faults 1 demo_income demo_db))"
    by (simp add: store_defs sample_defs sample_ids)
  have x: "post_exchange no_faults 1 demo_exchange demo_db =
      (Ok ?erow, snd (post_exchange no_faults 1 demo_exchange demo_db))"
    by (simp add: store_defs sample_defs sample_ids)
  have o: "owner_of demo_db 1 = Some 1" "owner_of demo_db 2 = Some 1"
    and b: "balance_of demo_db 1 = Some 50000" "balance_of demo_db 2 = Some 10000"
    and e: "eb_fromAccountId demo_exchange = Some 1" "eb_toAccountId demo_exchange = Some 2"
      "eb_fromAmount demo_exchange = decimal 10000" "eb_toAmount demo_exchange = decimal 2000"
    and i: "tb_type demo_income = ''income''" "tb_amount demo_income = decimal 25000"
    by (simp add: store_defs sample_defs sample_ids)+
  from create_moves_owned_balance [where fails = no_faults and u = 1 and b = demo_income
      and d = demo_db and row = ?row
      and d' = "snd (post_transaction no_faults 1 demo_income demo_db)" and aid = 1
      and bal = 50000 and c = 25000 and e = demo_exchange and erow = ?erow
      and d'' = "snd (post_exchange no_faults 1 demo_exchange demo_db)" and fa = 1 and ta = 2
      and bf = 50000 and bt = 10000 and x = 10000 and y = 2000]
    p x o b e i
  show ?thesis by simp
qed

text \<open>
  Claim C4 as stated fails. Accounts 1 and 2 belong to user 1, who updates the stored expense
  of 100.00 on account 1 to account 2 with the amount 0.005: the update succeeds, the row is
  stored on account 2 with the amount 0.01, and the balance of account 2 stays 100.00. And
  user 1 creates an expense of 0.005 on account 1 (stored as 0.01, the balance stays 500.00)
  and then updates it to account 2: account 1 is paid back 0.01 and ends at 500.01, account 2
  stays 100.00.
\<close>

theorem update_rehomes_balance_effect_counterexample:
  "owner_of demo_db 1 = Some 1 \<and> owner_of demo_db 2 = Some 1 \<and>
   balance_of demo_db 1 = Some 50000 \<and> balance_of demo_db 2 = Some 10000 \<and>
   fst (put_transaction no_faults 1 ''1'' half_cent_move demo_db) =
     Ok (Some \<lparr>tx_id = 1, tx_user_id = 1, tx_account_id = Some 2, tx_category_id = Some 1,
         tx_income_source_id = None, tx_type = ''expense'', tx_amount = 1,
         tx_description = ''rent'', tx_date = (2026, 2, 1)\<rparr>) \<and>
   balance_of (snd (put_transaction no_faults 1 ''1'' half_cent_move demo_db)) 2 = Some 10000 \<and>
   fst (post_transaction no_faults 1 half_cent_expense demo_db) =
     Ok \<lparr>tx_id = 2, tx_user_id = 1, tx_account_id = Some 1, tx_category_id = Some 1,
         tx_income_source_id = None, tx_type = ''expense'', tx_amount = 1,
         tx_description = ''rent'', tx_date = (2026, 2, 1)\<rparr> \<and>
   balance_of (snd (post_transaction no_faults 1 half_cent_expense demo_db)) 1 = Some 50000 \<and>
   fst (put_transaction no_faults 1 ''2'' (half_cent_expense\<lparr>tb_accountId := Some 2\<rparr>)
      (snd (post_transaction no_faults 1 half_cent_expense demo_db))) =
     Ok (Some \<lparr>tx_id = 2, tx_user_id = 1, tx_account_id = Some 2, tx_category_id = Some 1,
         tx_income_source_id = None, tx_type = ''expense'', tx_amount = 1,
         tx_description = ''rent'', tx_date = (2026, 2, 1)\<rparr>) \<and>
   balance_of (snd (put_transaction no_faults 1 ''2'' (half_cent_expense\<lparr>tb_accountId := Some 2\<rparr>)
      (snd (post_transaction no_faults 1 half_cent_expense demo_db)))) 1 = Some 50001 \<and>
   balance_of (snd (put_transaction no_faults 1 ''2'' (half_cent_expense\<lparr>tb_accountId := Some 2\<rparr>)
      (snd (post_transaction no_faults 1 half_cent_expense demo_db)))) 2 = Some 10000"
  by (simp add: store_defs sample_defs sample_ids)

text \<open>
  Claim C4, amended. A successful update that moves a transaction from account A to a
  different account B, both owned by the requester, with a new amount of at most two
  decimals, takes the old delta back from A and applies the new delta to B. In particular,
  after creating a transaction with such an amount on A and then updating it to B (under an
  id text that the store reads as the id of the created row), the balance of A is what it was
  before the creation and the balance of B has moved by the signed amount: for an expense of
  100.00, B is decreased by 100.00 and A is not decreased at all. Amounts and balances are
  counted in hundredths.
\<close>

theorem update_rehomes_balance_effect:
  "(put_transaction fails u i b d = (Ok r, d') \<and> select_transaction i u d = Some (old # rest) \<and>
    tx_account_id old = Some A \<and> tb_accountId b = Some B \<and> A \<noteq> B \<and>
    owner_of d A = Some u \<and> owner_of d B = Some u \<and>
    balance_of d A = Some ba \<and> balance_of d B = Some bb \<and> tb_amount b = decimal m \<longrightarrow>
      balance_of d' A = Some (ba - tx_delta old) \<and>
      balance_of d' B = Some (bb + (if tb_type b = ''income'' then m else - m))) \<and>
   (schema_ok d0 \<and> A \<noteq> B \<and> owner_of d0 A = Some u \<and> owner_of d0 B = Some u \<and>
    balance_of d0 A = Some a0 \<and> balance_of d0 B = Some b0 \<and> tb_amount c = decimal n \<and>
    post_transaction fails1 u c d0 = (Ok row, d1) \<and> tx_account_id row = Some A \<and>
    int4_in j = Some (int (tx_id row)) \<and>
    put_transaction fails2 u j (c\<lparr>tb_accountId := Some B\<rparr>) d1 = (Ok r2, d2) \<longrightarrow>
      balance_of d2 A = Some a0 \<and>
      balance_of d2 B = Some (b0 + (if tb_type c = ''income'' then n else - n)) \<and>
      (tb_type c = ''expense'' \<and> n = 10000 \<longrightarrow> balance_of d2 B = Some (b0 - 10000)))"
proof (intro conjI impI; elim conjE)
  assume p: "put_transaction fails u i b d = (Ok r, d')"
    and s: "select_transaction i u d = Some (old # rest)"
    and acc: "tx_account_id old = Some A" "tb_accountId b = Some B" "A \<noteq> B"
    and oA: "owner_of d A = Some u" and oB: "owner_of d B = Some u"
    and bA: "balance_of d A = Some ba" and bB: "balance_of d B = Some bb"
    and am: "tb_amount b = decimal m"
  show "balance_of d' A = Some (ba - tx_delta old)"
    using put_transaction_balance [OF p s oA bA refl] acc by simp
  show "balance_of d' B = Some (bb + (if tb_type b = ''income'' then m else - m))"
    using put_transaction_balance [OF p s oB bB refl] acc by (simp add: am)
next
  assume sch: "schema_ok d0" and ne: "A \<noteq> B"
    and oA: "owner_of d0 A = Some u" and oB: "owner_of d0 B = Some u"
    and bA: "balance_of d0 A = Some a0" and bB: "balance_of d0 B = Some b0"
    and am: "tb_amount c = decimal n"
    and post: "post_transaction fails1 u c d0 = (Ok row, d1)" and racc: "tx_account_id row = Some A"
    and jid: "int4_in j = Some (int (tx_id row))"
    and put: "put_transaction fails2 u j (c\<lparr>tb_accountId := Some B\<rparr>) d1 = (Ok r2, d2)"
  note row = post_transaction_row [OF post]
  have sel: "select_transaction j u d1 = Some (row # [])"
    using sch post jid by (rule select_fresh_transaction)
  have delta: "tx_delta row = (if tb_type c = ''income'' then n else - n)"
    by (simp add: tx_delta_def row am)
  have oA1: "owner_of d1 A = Some u" and oB1: "owner_of d1 B = Some u"
    using oA oB by (simp_all add: row)
  have bA1: "balance_of d1 A = Some (a0 + tx_delta row)"
    using post_transaction_balance [OF post oA bA] racc by (simp add: am delta)
  have bB1: "balance_of d1 B = Some b0"
    using post_transaction_balance [OF post oB bB] racc ne by simp
  show A: "balance_of d2 A = Some a0"
    using put_transaction_balance [OF put sel oA1 bA1 refl] racc ne by simp
  show B: "balance_of d2 B = Some (b0 + (if tb_type c = ''income'' then n else - n))"
    using put_transaction_balance [OF put sel oB1 bB1 refl] racc ne by (simp add: am)
  show "balance_of d2 B = Some (b0 - 10000)" if "tb_type c = ''expense''" "n = 10000"
    using B that by simp
qed

theorem update_rehomes_balance_effect_witness:
  "balance_of demo_db 1 = Some 50000 \<and> balance_of demo_db 2 = Some 10000 \<and>
   balance_of (snd (put_transaction no_faults 1 ''1'' demo_body demo_db)) 1 = Some (50000 + 10000) \<and>
   balance_of (snd (put_transaction no_faults 1 ''1'' demo_body demo_db)) 2 = Some (10000 - 10000) \<and>
   balance_of (snd (put_transaction no_faults 1 ''2'' (expense_on_1\<lparr>tb_accountId := Some 2\<rparr>)
      (snd (post_transaction no_faults 1 expense_on_1 demo_db)))) 1 = Some 50000 \<and>
   balance_of (snd (put_transaction no_faults 1 ''2'' (expense_on_1\<lparr>tb_accountId := Some 2\<rparr>)
      (snd (post_transaction no_faults 1 expense_on_1 demo_db)))) 2 = Some (10000 - 10000)"
proof -
  let ?old = "\<lparr>tx_id = 1, tx_user_id = 1, tx_account_id = Some 1, tx_category_id = Some 1,
      tx_income_source_id = None, tx_type = ''expense'', tx_amount = 10000,
      tx_description = ''rent'', tx_date = (2026, 2, 1)\<rparr>"
  let ?row = "?old\<lparr>tx_id := 2\<rparr>"
  let ?d1 = "snd (post_transaction no_faults 1 expense_on_1 demo_db)"
  let ?moved = "expense_on_1\<lparr>tb_accountId := Some 2\<rparr>"
  have put1: "put_transaction no_faults 1 ''1'' demo_body demo_db =
      (Ok (Some (?old\<lparr>tx_account_id := Some 2\<rparr>)),
       snd (put_transaction no_faults 1 ''1'' demo_body demo_db))"
    by (simp add: store_defs sample_defs sample_ids)
  have sel: "select_transaction ''1'' 1 demo_db = Some (?old # [])"
    and facts: "tx_account_id ?old = Some 1" "tb_accountId demo_body = Some 2" "(1::nat) \<noteq> 2"
      "owner_of demo_db 1 = Some 1" "owner_of demo_db 2 = Some 1"
      "balance_of demo_db 1 = Some 50000" "balance_of demo_db 2 = Some 10000"
      "tx_delta ?old = - 10000" "tb_type demo_body = ''expense''"
      "tb_amount demo_body = decimal 10000"
      "schema_ok demo_db" "tb_type expense_on_1 = ''expense''"
      "tb_amount expense_on_1 = decimal 10000"
      "tx_account_id ?row = Some 1" "int4_in ''2'' = Some (int (tx_id ?row))"
    by (simp add: store_defs sample_defs sample_ids)+
  have post: "post_transaction no_faults 1 expense_on_1 demo_db = (Ok ?row, ?d1)"
    by (simp add: store_defs sample_defs sample_ids)
  have put2: "put_transaction no_faults 1 ''2'' ?moved ?d1 =
      (Ok (Some (?row\<lparr>tx_account_id := Some 2\<rparr>)),
       snd (put_transaction no_faults 1 ''2'' ?moved ?d1))"
    by (simp add: store_defs sample_defs sample_ids)
  from update_rehomes_balance_effect [where fails = no_faults and u = 1 and i = "''1''"
      and b = demo_body and d = demo_db and r = "Some (?old\<lparr>tx_account_id := Some 2\<rparr>)"
      and d' = "snd (put_transaction no_faults 1 ''1'' demo_body demo_db)"
      and old = ?old and rest = "[]" and A = 1 and B = 2 and ba = 50000 and bb = 10000
      and m = 10000 and ?d0.0 = demo_db and ?a0.0 = 50000 and ?b0.0 = 10000 and n = 10000
      and ?fails1.0 = no_faults and c = expense_on_1 and row = ?row and ?d1.0 = ?d1
      and j = "''2''" and ?fails2.0 = no_faults
      and ?r2.0 = "Some (?row\<lparr>tx_account_id := Some 2\<rparr>)"
      and ?d2.0 = "snd (put_transaction no_faults 1 ''2'' ?moved ?d1)"]
    put1 sel facts post put2
  show ?thesis by simp
qed

text \<open>
  Claim C5 as stated fails. User 1 creates an exchange of 0.005 to 0.005 from account 1 to
  account 2, both owned: the row is stored with both amounts 0.01, account 1 stays 500.00
  (not decreased by the amount) and account 2 goes from 100.00 to 100.01. Deleting the
  exchange succeeds and pays the stored 0.01 back to account 1, which ends at 500.01, not at
  its balance before the exchange.
\<close>

theorem exchange_round_trip_counterexample:
  "owner_of demo_db 1 = Some 1 \<and> owner_of demo_db 2 = Some 1 \<and>
   balance_of demo_db 1 = Some 50000 \<and> balance_of demo_db 2 = Some 10000 \<and>
   fst (post_exchange no_faults 1 half_cent_exchange demo_db) =
     Ok \<lparr>ex_id = 1, ex_user_id = 1, from_account_id = Some 1, to_account_id = Some 2,
         from_amount = 1, to_amount = 1, from_currency = ''BRL'', to_currency = ''EUR'',
         exchange_rate = 200000, ex_date = (2026, 2, 7)\<rparr> \<and>
   balance_of (snd (post_exchange no_faults 1 half_cent_exchange demo_db)) 1 = Some 50000 \<and>
   balance_of (snd (post_exchange no_faults 1 half_cent_exchange demo_db)) 2 = Some 10001 \<and>
   fst (delete_exchange no_faults 1 ''1'' (snd (post_exchange no_faults 1 half_cent_exchange demo_db)))
     = Ok Deleted \<and>
   balance_of (snd (delete_exchange no_faults 1 ''1''
      (snd (post_exchange no_faults 1 half_cent_exchange demo_db)))) 1 = Some 50001 \<and>
   balance_of (snd (delete_exchange no_faults 1 ''1''
      (snd (post_exchange no_faults 1 half_cent_exchange demo_db)))) 1 \<noteq> balance_of demo_db 1"
  by (simp add: store_defs sample_defs sample_ids)

text \<open>
  Claim C5, amended. For two different accounts A and B of the requester and every pair of
  amounts of at most two decimals, a successful exchange from A to B decreases A by
  \<open>fromAmount\<close>, increases B by \<open>toAmount\<close> and adds its row to the stored exchanges. Deleting
  that exchange (under an id text that the store reads as the id of the row) then succeeds
  when the store does not fail, and every successful deletion of it is the inverse of the
  creation: both balances are as before the exchange, and so is the whole stored state, the
  exchanges included; only the id sequence has moved on. Amounts and balances are counted in
  hundredths.
\<close>

theorem exchange_round_trip:
  assumes "schema_ok d" and "A \<noteq> B"
    and "owner_of d A = Some u" and "owner_of d B = Some u"
    and "balance_of d A = Some ba" and "balance_of d B = Some bb"
    and "eb_fromAccountId b = Some A" and "eb_toAccountId b = Some B"
    and "eb_fromAmount b = decimal x" and "eb_toAmount b = decimal y"
    and "post_exchange fails u b d = (Ok row, d1)"
    and "int4_in i = Some (int (ex_id row))"
  shows "balance_of d1 A = Some (ba - x) \<and>
         balance_of d1 B = Some (bb + y) \<and>
         exchange_operations d1 = exchange_operations d @ [row] \<and>
         fst (delete_exchange no_faults u i d1) = Ok Deleted \<and>
         (\<forall>fails' r d2. delete_exchange fails' u i d1 = (Ok r, d2) \<longrightarrow>
            balance_of d2 A = Some ba \<and> balance_of d2 B = Some bb \<and>
            exchange_operations d2 = exchange_operations d \<and>
            d2 = d\<lparr>exchange_operations_id_seq := Suc (exchange_operations_id_seq d)\<rparr>)"
proof -
  note post = assms(11)
  note row = post_exchange_row [OF post]
  have amounts: "from_amount row = x" "to_amount row = y"
    by (simp_all add: row assms(9,10))
  have exact: "two_decimals (eb_fromAmount b)" "two_decimals (eb_toAmount b)"
    by (simp_all add: assms(9,10))
  have bA1: "balance_of d1 A = Some (ba - x)"
    using post_exchange_balance [OF post assms(3,5) refl] assms(2,7,8) by (simp add: assms(9))
  have bB1: "balance_of d1 B = Some (bb + y)"
    using post_exchange_balance [OF post assms(4,6) refl] assms(2,7,8) by (simp add: assms(10))
  have oA1: "owner_of d1 A = Some u" and oB1: "owner_of d1 B = Some u"
    using assms(3,4) by (simp_all add: row)
  have sel: "select_exchange i u d1 = Some (row # [])"
    using assms(1) post assms(12) by (rule select_fresh_exchange)
  have restored: "balance_of d2 A = Some ba \<and> balance_of d2 B = Some bb \<and>
      exchange_operations d2 = exchange_operations d \<and>
      d2 = d\<lparr>exchange_operations_id_seq := Suc (exchange_operations_id_seq d)\<rparr>"
    if del: "delete_exchange fails' u i d1 = (Ok r, d2)" for fails' r d2
  proof -
    have "d2 = d\<lparr>exchange_operations_id_seq := Suc (exchange_operations_id_seq d)\<rparr>"
      using assms(1,2,7-10) post assms(12) del by (rule exchange_then_delete_state)
    moreover from this have "exchange_operations d2 = exchange_operations d"
      by simp
    moreover have "balance_of d2 A = Some ba" and "balance_of d2 B = Some bb"
      using delete_exchange_balance [OF del sel oA1 bA1]
        delete_exchange_balance [OF del sel oB1 bB1] assms(2,7,8)
      by (simp_all add: row(4,5) amounts)
    ultimately show ?thesis by blast
  qed
  have sch1: "schema_ok d1"
    using post_exchange_step [OF assms(1,3) post exact] by (simp add: in_step_def)
  have fitsA: "fits_decimal_15_2 ba" and fitsB: "fits_decimal_15_2 bb"
    using balance_fits [OF assms(1)] assms(5,6) by blast+
  obtain d2 where ub1:
    "update_balance (decimal (from_amount row)) (from_account_id row) u d1 = Some d2"
    using update_balance_succeeds [OF sch1 oA1 bA1, of u "decimal (from_amount row)"] fitsA
    by (auto simp: row(4) amounts assms(7))
  have sch2: "schema_ok d2"
    using ub1 sch1 by (rule update_balance_schema)
  have oB2: "owner_of d2 B = Some u"
    using oB1 by (simp add: update_balance_owner [OF ub1])
  have bB2: "balance_of d2 B = Some (bb + y)"
    using update_balance_rounds [OF ub1 oB1 bB1] assms(2) by (simp add: row(4) assms(7))
  obtain d3 where ub2:
    "update_balance (- decimal (to_amount row)) (to_account_id row) u d2 = Some d3"
    using update_balance_succeeds [OF sch2 oB2 bB2, of u "- decimal (to_amount row)"] fitsB
    by (auto simp: row(5) amounts assms(8))
  have "fst (delete_exchange no_faults u i d1) = Ok Deleted"
    unfolding delete_exchange_def
    by (simp add: settle_def query_def no_faults_def sel ub1 ub2 delete_exchange_row_def
        assms(12))
  with bA1 bB1 row(1) restored show ?thesis by blast
qed

theorem exchange_round_trip_witness:
  "balance_of demo_db 1 = Some 50000 \<and> balance_of demo_db 2 = Some 10000 \<and>
   balance_of (snd (post_exchange no_faults 1 demo_exchange demo_db)) 1 = Some (50000 - 10000) \<and>
   balance_of (snd (post_exchange no_faults 1 demo_exchange demo_db)) 2 = Some (10000 + 2000) \<and>
   length (exchange_operations (snd (post_exchange no_faults 1 demo_exchange demo_db))) = 1 \<and>
   fst (delete_exchange no_faults 1 ''1'' (snd (post_exchange no_faults 1 demo_exchange demo_db)))
     = Ok Deleted \<and>
   snd (delete_exchange no_faults 1 ''1'' (snd (post_exchange no_faults 1 demo_exchange demo_db)))
     = demo_db\<lparr>exchange_operations_id_seq := 2\<rparr>"
proof -
  let ?erow = "\<lparr>ex_id = 1, ex_user_id = 1, from_account_id = Some 1, to_account_id = Some 2,
         from_amount = 10000, to_amount = 2000, from_currency = ''BRL'', to_currency = ''EUR'',
         exchange_rate = 200000, ex_date = (2026, 2, 7)\<rparr>"
  let ?d1 = "snd (post_exchange no_faults 1 demo_exchange demo_db)"
  have h: "schema_ok demo_db" "(1::nat) \<noteq> 2" "owner_of demo_db 1 = Some 1"
    "owner_of demo_db 2 = Some 1" "balance_of demo_db 1 = Some 50000"
    "balance_of demo_db 2 = Some 10000" "eb_fromAccountId demo_exchange = Some 1"
    "eb_toAccountId demo_exchange = Some 2" "eb_fromAmount demo_exchange = decimal 10000"
    "eb_toAmount demo_exchange = decimal 2000"
    by (simp add: store_defs sample_defs sample_ids)+
  have x: "post_exchange no_faults 1 demo_exchange demo_db = (Ok ?erow, ?d1)"
    by (simp add: store_defs sample_defs sample_ids)
  have i: "int4_in ''1'' = Some (int (ex_id ?erow))"
    by (simp add: store_defs sample_defs sample_ids)
  have v: "exchange_operations demo_db = []" "exchange_operations_id_seq demo_db = 1"
    by (simp add: store_defs sample_defs sample_ids)+
  note t = exchange_round_trip [OF h x i]
  from t have "delete_exchange no_faults 1 ''1'' ?d1 =
      (Ok Deleted, snd (delete_exchange no_faults 1 ''1'' ?d1))"
    by (simp add: prod_eq_iff)
  with t have "snd (delete_exchange no_faults 1 ''1'' ?d1) =
      demo_db\<lparr>exchange_operations_id_seq := Suc (exchange_operations_id_seq demo_db)\<rparr>"
    by blast
  with t h show ?thesis
    by (simp add: v)
qed

text \<open>
  Claim C6 as stated fails. The id of a request is the text of the URL. No stored transaction
  or exchange has the id \<^verbatim>\<open>abc\<close> or the id \<^verbatim>\<open>99999999999\<close>, and the store cannot read either text
  as a value of the integer id column: the lookup throws, and update and delete answer 500, not
  404. The stored state is unchanged.
\<close>

theorem missing_record_is_not_found_counterexample:
  "int4_in ''abc'' = None \<and> int4_in ''99999999999'' = None \<and>
   put_transaction no_faults 1 ''abc'' demo_body demo_db = (Failure 500, demo_db) \<and>
   delete_transaction no_faults 1 ''99999999999'' demo_db = (Failure 500, demo_db) \<and>
   put_exchange no_faults 1 ''abc'' demo_exchange demo_db = (Failure 500, demo_db) \<and>
   delete_exchange no_faults 1 ''99999999999'' demo_db = (Failure 500, demo_db)"
  by (simp add: store_defs sample_defs sample_ids)

text \<open>
  Claim C6, amended. When no stored transaction of the requesting user has the id that the
  text of the request denotes (it is absent, owned by another user, or the text denotes no
  id), update and delete leave the stored state as it was; they answer 404 when the text is
  an integer of the type of the id column, and 500 when it is not. The same holds for
  exchanges. The stored state is unchanged also when the store itself fails at one of the
  three queries the handler reaches, in which case the answer is 500.
\<close>

theorem missing_record_is_not_found:
  assumes "\<forall>t\<in>set (transactions d). Some (int (tx_id t)) = int4_in i \<longrightarrow> tx_user_id t \<noteq> u"
    and "\<forall>e\<in>set (exchange_operations d). Some (int (ex_id e)) = int4_in j \<longrightarrow> ex_user_id e \<noteq> u"
  shows "put_transaction fails u i b d =
           (if fails 0 \<or> fails 1 \<or> int4_in i = None \<or> fails 2 then Failure 500 else Failure 404,
            d) \<and>
         delete_transaction fails u i d =
           (if fails 0 \<or> fails 1 \<or> int4_in i = None \<or> fails 2 then Failure 500 else Failure 404,
            d) \<and>
         put_exchange fails u j e d =
           (if fails 0 \<or> fails 1 \<or> int4_in j = None \<or> fails 2 then Failure 500 else Failure 404,
            d) \<and>
         delete_exchange fails u j d =
           (if fails 0 \<or> fails 1 \<or> int4_in j = None \<or> fails 2 then Failure 500 else Failure 404,
            d)"
proof -
  from assms(1) have t: "select_transaction i u d = map_option (\<lambda>n. []) (int4_in i)"
    by (auto simp: select_transaction_def filter_empty_conv split: option.split)
  from assms(2) have x: "select_exchange j u d = map_option (\<lambda>n. []) (int4_in j)"
    by (auto simp: select_exchange_def filter_empty_conv split: option.split)
  have pt: "put_transaction fails u i b d =
      (if fails 0 \<or> fails 1 \<or> int4_in i = None \<or> fails 2 then Failure 500 else Failure 404, d)"
    by (cases "int4_in i") (simp_all add: put_transaction_def settle_def query_def t)
  have dt: "delete_transaction fails u i d =
      (if fails 0 \<or> fails 1 \<or> int4_in i = None \<or> fails 2 then Failure 500 else Failure 404, d)"
    by (cases "int4_in i") (simp_all add: delete_transaction_def settle_def query_def t)
  have px: "put_exchange fails u j e d =
      (if fails 0 \<or> fails 1 \<or> int4_in j = None \<or> fails 2 then Failure 500 else Failure 404, d)"
    by (cases "int4_in j") (simp_all add: put_exchange_def settle_def query_def x)
  have dx: "delete_exchange fails u j d =
      (if fails 0 \<or> fails 1 \<or> int4_in j = None \<or> fails 2 then Failure 500 else Failure 404, d)"
    by (cases "int4_in j") (simp_all add: delete_exchange_def settle_def query_def x)
  from pt dt px dx show ?thesis
    by (intro conjI)
qed

theorem missing_record_is_not_found_witness:
  "map tx_id (transactions demo_db) = [1] \<and> map tx_user_id (transactions demo_db) = [1] \<and>
   exchange_operations demo_db = [] \<and> int4_in ''1'' = Some 1 \<and> int4_in ''5'' = Some 5 \<and>
   put_transaction no_faults 2 ''1'' demo_body demo_db = (Failure 404, demo_db) \<and>
   delete_transaction no_faults 2 ''1'' demo_db = (Failure 404, demo_db) \<and>
   put_exchange no_faults 2 ''5'' demo_exchange demo_db = (Failure 404, demo_db) \<and>
   delete_exchange no_faults 2 ''5'' demo_db = (Failure 404, demo_db)"
proof -
  have n: "int4_in ''1'' = Some 1" "int4_in ''5'' = Some 5"
    by (simp add: store_defs sample_defs sample_ids)+
  have a: "\<forall>t\<in>set (transactions demo_db). Some (int (tx_id t)) = int4_in ''1'' \<longrightarrow> tx_user_id t \<noteq> 2"
    by (simp add: demo_db_def)
  have b: "\<forall>e\<in>set (exchange_operations demo_db).
      Some (int (ex_id e)) = int4_in ''5'' \<longrightarrow> ex_user_id e \<noteq> 2"
    by (simp add: demo_db_def)
  have c: "map tx_id (transactions demo_db) = [1]" "map tx_user_id (transactions demo_db) = [1]"
    "exchange_operations demo_db = []"
    by (simp_all add: demo_db_def)
  from missing_record_is_not_found [OF a b, of no_faults demo_body demo_exchange] c n
  show ?thesis
    by (simp add: no_faults_def)
qed

text \<open>
  Claim C10. A transaction created on an existing account of another user commits: the
  response is the inserted row (its amount rounded to the two decimals of the column), the
  row is stored, and the accounts table (so every balance) is as before, because the balance
  update matches no row.
\<close>

theorem foreign_account_create_commits:
  assumes "schema_ok d" and "a \<in> set (accounts d)" and "acc_user_id a \<noteq> u"
    and "tb_accountId b = Some (acc_id a)"
    and "u \<in> set (users d)"
    and "references (or_null (tb_categoryId b)) (categories d)"
    and "references (or_null (tb_incomeSourceId b)) (income_sources d)"
    and "length (tb_type b) \<le> 50" and "fits_decimal_15_2 (pg_round 2 (tb_amount b))"
  shows "\<exists>row. post_transaction no_faults u b d =
            (Ok row, d\<lparr>transactions := transactions d @ [row],
                        transactions_id_seq := Suc (transactions_id_seq d)\<rparr>) \<and>
           row = \<lparr>tx_id = transactions_id_seq d, tx_user_id = u,
                   tx_account_id = or_null (Some (acc_id a)),
                   tx_category_id = or_null (tb_categoryId b),
                   tx_income_source_id = or_null (tb_incomeSourceId b),
                   tx_type = tb_type b, tx_amount = pg_round 2 (tb_amount b),
                   tx_description = tb_description b, tx_date = tb_date b\<rparr> \<and>
           accounts (snd (post_transaction no_faults u b d)) = accounts d"
proof -
  let ?row = "\<lparr>tx_id = transactions_id_seq d, tx_user_id = u,
                   tx_account_id = or_null (Some (acc_id a)),
                   tx_category_id = or_null (tb_categoryId b),
                   tx_income_source_id = or_null (tb_incomeSourceId b),
                   tx_type = tb_type b, tx_amount = pg_round 2 (tb_amount b),
                   tx_description = tb_description b, tx_date = tb_date b\<rparr>"
  let ?d1 = "d\<lparr>transactions := transactions d @ [?row],
                transactions_id_seq := Suc (transactions_id_seq d)\<rparr>"
  have "references (or_null (Some (acc_id a))) (map acc_id (accounts d))"
    using assms(2) by (simp add: references_def or_null_def)
  with assms have ins: "insert_transaction u (or_null (tb_accountId b)) (or_null (tb_categoryId b))
      (or_null (tb_incomeSourceId b)) (tb_type b) (tb_amount b) (tb_description b) (tb_date b) d
      = Some (?row, ?d1)"
    by (simp add: insert_transaction_def transaction_columns_ok_def Let_def)
  have "\<not> account_matches (or_null (tb_accountId b)) u x" if "x \<in> set (accounts ?d1)" for x
  proof
    assume m: "account_matches (or_null (tb_accountId b)) u x"
    then have "acc_id x = acc_id a" and "acc_user_id x = u"
      by (auto simp: account_matches_def or_null_def assms(4) split: if_splits)
    moreover from assms(1) have "inj_on acc_id (set (accounts d))"
      by (simp add: schema_ok_def distinct_map)
    ultimately have "x = a"
      using that assms(2) by (auto dest: inj_onD)
    with \<open>acc_user_id x = u\<close> assms(3) show False by simp
  qed
  then have ub: "update_balance c (or_null (tb_accountId b)) u ?d1 = Some ?d1" for c
    by (intro update_balance_no_match) blast
  have "post_transaction no_faults u b d = (Ok ?row, ?d1)"
    unfolding post_transaction_def Let_def
    by (simp add: settle_def query_def no_faults_def ins ub)
  then show ?thesis by simp
qed

theorem foreign_account_create_commits_witness:
  "fst (post_transaction no_faults 2 demo_income demo_db) =
     Ok \<lparr>tx_id = 2, tx_user_id = 2, tx_account_id = Some 1, tx_category_id = Some 2,
         tx_income_source_id = Some 1, tx_type = ''income'', tx_amount = 25000,
         tx_description = ''salary'', tx_date = (2026, 2, 5)\<rparr> \<and>
   accounts (snd (post_transaction no_faults 2 demo_income demo_db)) = accounts demo_db"
proof -
  have "schema_ok demo_db" by (simp add: store_defs sample_defs sample_ids)
  moreover have "hd (accounts demo_db) \<in> set (accounts demo_db)"
    and "acc_user_id (hd (accounts demo_db)) \<noteq> 2"
    and "tb_accountId demo_income = Some (acc_id (hd (accounts demo_db)))"
    and "2 \<in> set (users demo_db)"
    and "references (or_null (tb_categoryId demo_income)) (categories demo_db)"
    and "references (or_null (tb_incomeSourceId demo_income)) (income_sources demo_db)"
    and "length (tb_type demo_income) \<le> 50"
    by (simp_all add: demo_db_def demo_income_def references_def or_null_def)
  moreover have amount: "pg_round 2 (tb_amount demo_income) = 25000"
    by (simp add: store_defs sample_defs sample_ids)
  then have "fits_decimal_15_2 (pg_round 2 (tb_amount demo_income))"
    by (simp add: fits_decimal_15_2_def)
  ultimately have "\<exists>row. post_transaction no_faults 2 demo_income demo_db =
            (Ok row, demo_db\<lparr>transactions := transactions demo_db @ [row],
                        transactions_id_seq := Suc (transactions_id_seq demo_db)\<rparr>) \<and>
           row = \<lparr>tx_id = transactions_id_seq demo_db, tx_user_id = 2,
                   tx_account_id = or_null (Some (acc_id (hd (accounts demo_db)))),
                   tx_category_id = or_null (tb_categoryId demo_income),
                   tx_income_source_id = or_null (tb_incomeSourceId demo_income),
                   tx_type = tb_type demo_income, tx_amount = pg_round 2 (tb_amount demo_income),
                   tx_description = tb_description demo_income, tx_date = tb_date demo_income\<rparr> \<and>
           accounts (snd (post_transaction no_faults 2 demo_income demo_db)) = accounts demo_db"
    by (rule foreign_account_create_commits)
  then show ?thesis
    by (auto simp: amount) (simp_all add: demo_db_def demo_income_def or_null_def)
qed

text \<open>
  Claim C9. The handler that writes the \<^verbatim>\<open>currency\<close> column sends a plain \<^verbatim>\<open>INSERT\<close>.
  When a stored budget of the user already has the category, month, year and currency of the
  request, the unique key of the table refuses the row: the response is 500 and the stored
  budgets, so the limit of the existing row, are unchanged. The creation is not an upsert.
\<close>

theorem duplicate_budget_key_is_refused:
  assumes "b \<in> set (budgets d)" and "bud_user_id b = u" and "bud_category_id b = Some c"
    and "c \<noteq> 0" and "bud_month b \<noteq> 0" and "bud_year b \<noteq> 0"
    and "bb_categoryId body = Some c" and "bb_entityId body = None"
    and "bb_month body = Some (MonthNumber (bud_month b))" and "bb_year body = Some (bud_year b)"
    and "bb_currency body = Some (bud_currency b)"
  shows "post_budget fails now u body d = (Failure 500, d)"
proof -
  have "budget_key_taken d u (Some c) (bud_month b) (bud_year b) (bud_currency b)"
    using assms(1-3) by (auto simp: budget_key_taken_def list_ex_iff)
  then have "insert_budget u (Some c) (Some (bud_month b)) (Some (bud_year b)) l
      (Some (bud_currency b)) d = None" for l
    by (simp add: insert_budget_def split: option.split)
  then show ?thesis
    using assms(4-11)
    by (simp add: post_budget_def truthy_nat_def truthy_int_def or_null_def query_def)
qed

theorem duplicate_budget_key_is_refused_witness:
  "fst (post_budget no_faults (11, 2026) 1 demo_budget demo_db) =
     Created \<lparr>bud_id = 1, bud_user_id = 1, bud_category_id = Some 1, bud_month = 2,
              bud_year = 2026, bud_limit_amount = 50000, bud_currency = ''BRL''\<rparr> \<and>
   post_budget no_faults (11, 2026) 1 (demo_budget\<lparr>bb_limitAmount := Some 80000\<rparr>)
       (snd (post_budget no_faults (11, 2026) 1 demo_budget demo_db)) =
     (Failure 500, snd (post_budget no_faults (11, 2026) 1 demo_budget demo_db)) \<and>
   map bud_limit_amount (budgets (snd (post_budget no_faults (11, 2026) 1 demo_budget demo_db)))
     = [50000]"
proof -
  let ?d1 = "snd (post_budget no_faults (11, 2026) 1 demo_budget demo_db)"
  let ?b = "\<lparr>bud_id = 1, bud_user_id = 1, bud_category_id = Some 1, bud_month = 2,
              bud_year = 2026, bud_limit_amount = 50000, bud_currency = ''BRL''\<rparr>"
  let ?body = "demo_budget\<lparr>bb_limitAmount := Some 80000\<rparr>"
  have first: "fst (post_budget no_faults (11, 2026) 1 demo_budget demo_db) = Created ?b"
    and stored: "budgets ?d1 = [?b]"
    by code_simp+
  have m: "?b \<in> set (budgets ?d1)"
    unfolding stored by simp
  have h: "bud_user_id ?b = 1" "bud_category_id ?b = Some 1"
    "(1::nat) \<noteq> 0" "bud_month ?b \<noteq> 0" "bud_year ?b \<noteq> 0"
    "bb_categoryId ?body = Some 1" "bb_entityId ?body = None"
    "bb_month ?body = Some (MonthNumber (bud_month ?b))" "bb_year ?body = Some (bud_year ?b)"
    "bb_currency ?body = Some (bud_currency ?b)"
    by (simp_all add: demo_budget_def)
  from duplicate_budget_key_is_refused [OF m h, of no_faults "(11, 2026)"] first stored
  show ?thesis by simp
qed

text \<open>
  Claim C7. In every bucket of a dashboard response, \<^verbatim>\<open>debtRatio\<close> is the number 0 when
  \<^verbatim>\<open>totalAssets\<close> is 0, \<^verbatim>\<open>savingsRate\<close> is 0 when the monthly income is 0 (the response
  holds it as \<^verbatim>\<open>toFixed(2)\<close> writes it, \<^verbatim>\<open>"0.00"\<close>), and \<^verbatim>\<open>emergencyFundMonths\<close>
  is \<^verbatim>\<open>"0.0"\<close> when the monthly expenses are 0. None of them is \<^verbatim>\<open>NaN\<close> or an
  infinity, which the divisions would give without the guards.
\<close>

theorem zero_denominator_metrics:
  assumes "get_dashboard fails now u d = Ok metrics" and "(currency, m) \<in> set metrics"
  shows "(totalAssets m = Finite 0 \<longrightarrow> debtRatio m = Finite 0) \<and>
         (monthly_income m = Finite 0 \<longrightarrow> monthly_savingsRate m = ''0.00'') \<and>
         (monthly_expenses m = Finite 0 \<longrightarrow> emergencyFundMonths m = ''0.0'')"
proof -
  from get_dashboard_buckets [OF assms(1)] obtain M E byCurrency where
    "metrics = map (\<lambda>(currency, m). (currency, add_emergency_fund E currency m))
       (map (\<lambda>(currency, data). (currency, currency_metric M currency data)) byCurrency)"
    by blast
  with assms(2) obtain data where
    "m = add_emergency_fund E currency (currency_metric M currency data)"
    by auto
  from bucket_guards [OF this] show ?thesis by blast
qed

theorem zero_denominator_metrics_witness:
  "map fst (case get_dashboard no_faults (2, 2026) 1 demo_db of Ok ms \<Rightarrow> ms | _ \<Rightarrow> [])
     = [''BRL'', ''EUR'', ''USD''] \<and>
   (''USD'', usd_bucket) \<in>
     set (case get_dashboard no_faults (2, 2026) 1 demo_db of Ok ms \<Rightarrow> ms | _ \<Rightarrow> []) \<and>
   totalAssets usd_bucket = Finite 0 \<and> totalLiabilities usd_bucket = Finite 50 \<and>
   debtRatio usd_bucket = Finite 0 \<and>
   monthly_income usd_bucket = Finite 0 \<and> monthly_savingsRate usd_bucket = ''0.00'' \<and>
   monthly_expenses usd_bucket = Finite 0 \<and> emergencyFundMonths usd_bucket = ''0.0''"
proof -
  obtain ms where g: "get_dashboard no_faults (2, 2026) 1 demo_db = Ok ms"
    and k: "map fst ms = [''BRL'', ''EUR'', ''USD'']" and m: "(''USD'', usd_bucket) \<in> set ms"
  proof
    show "get_dashboard no_faults (2, 2026) 1 demo_db =
        Ok (case get_dashboard no_faults (2, 2026) 1 demo_db of Ok ms \<Rightarrow> ms | _ \<Rightarrow> [])"
      by code_simp
    show "map fst (case get_dashboard no_faults (2, 2026) 1 demo_db of Ok ms \<Rightarrow> ms | _ \<Rightarrow> [])
        = [''BRL'', ''EUR'', ''USD'']"
      by code_simp
    show "(''USD'', usd_bucket) \<in>
        set (case get_dashboard no_faults (2, 2026) 1 demo_db of Ok ms \<Rightarrow> ms | _ \<Rightarrow> [])"
      by code_simp
  qed
  have z: "totalAssets usd_bucket = Finite 0" "monthly_income usd_bucket = Finite 0"
    "monthly_expenses usd_bucket = Finite 0" "totalLiabilities usd_bucket = Finite 50"
    by (simp_all add: usd_bucket_def)
  from zero_denominator_metrics [OF g m] z k m g show ?thesis
    by simp
qed

text \<open>
  Claim C8. For a user with no accounts, transactions, investments, assets or liabilities the
  dashboard handler answers with success, and the response holds exactly one bucket, for the
  base currency BRL, with every metric zero and \<^verbatim>\<open>emergencyFundMonths\<close> equal to
  \<^verbatim>\<open>"0.0"\<close>.
\<close>

theorem empty_user_dashboard:
  assumes "\<forall>a\<in>set (accounts d). acc_user_id a \<noteq> u"
    and "\<forall>t\<in>set (transactions d). tx_user_id t \<noteq> u"
    and "\<forall>r\<in>set (investments d). val_user_id r \<noteq> u"
    and "\<forall>r\<in>set (assets d). val_user_id r \<noteq> u"
    and "\<forall>r\<in>set (liabilities d). val_user_id r \<noteq> u"
  shows "get_dashboard no_faults now u d =
    Ok [(''BRL'', \<lparr>totalAssets = Finite 0, totalLiabilities = Finite 0, netWorth = Finite 0,
                    debtRatio = Finite 0, monthly_income = Finite 0, monthly_expenses = Finite 0,
                    monthly_balance = Finite 0, monthly_savingsRate = ''0.00'',
                    emergencyFundMonths = ''0.0'', emergencyFundValue = Finite 0\<rparr>)]"
proof -
  have a: "filter (\<lambda>a. acc_user_id a = u) (accounts d) = []"
    and e: "filter (\<lambda>a. acc_user_id a = u \<and> acc_is_emergency_fund a) (accounts d) = []"
    and t: "filter (\<lambda>t. tx_user_id t = u \<and> fst (snd (tx_date t)) = fst now \<and>
                          fst (tx_date t) = snd now) (transactions d) = []"
    and i: "filter (\<lambda>r. val_user_id r = u) (investments d) = []"
    and s: "filter (\<lambda>r. val_user_id r = u) (assets d) = []"
    and l: "filter (\<lambda>r. val_user_id r = u) (liabilities d) = []"
    using assms by (simp_all add: filter_empty_conv)
  show ?thesis
    unfolding get_dashboard_def
    by (simp add: query_def no_faults_def select_account_totals_def select_valued_totals_def
        select_emergency_totals_def select_monthly_totals_def sum_by_currency_def a e t i s l
        ensure_def currency_metric_def add_emergency_fund_def js_sub_def toFixed_zero Let_def)
qed

theorem empty_user_dashboard_witness:
  "get_dashboard no_faults (2, 2026) 5 demo_db =
    Ok [(''BRL'', \<lparr>totalAssets = Finite 0, totalLiabilities = Finite 0, netWorth = Finite 0,
                    debtRatio = Finite 0, monthly_income = Finite 0, monthly_expenses = Finite 0,
                    monthly_balance = Finite 0, monthly_savingsRate = ''0.00'',
                    emergencyFundMonths = ''0.0'', emergencyFundValue = Finite 0\<rparr>)]"
proof -
  have "\<forall>a\<in>set (accounts demo_db). acc_user_id a \<noteq> 5"
    and "\<forall>t\<in>set (transactions demo_db). tx_user_id t \<noteq> 5"
    and "\<forall>r\<in>set (investments demo_db). val_user_id r \<noteq> 5"
    and "\<forall>r\<in>set (assets demo_db). val_user_id r \<noteq> 5"
    and "\<forall>r\<in>set (liabilities demo_db). val_user_id r \<noteq> 5"
    by (simp_all add: demo_db_def)
  then show ?thesis
    by (rule empty_user_dashboard)
qed

end
